theory Spec2Isabelle
  imports Complex_Main
begin

section \<open>Values shared by the modules\<close>

text \<open>
  Denoms, contract addresses and hashes are JavaScript strings. An instant (a block's
  header time, a \<open>TIMESTAMPTZ\<close> column, a JavaScript \<open>Date\<close>) is a count of
  milliseconds since the epoch. A value that may be \<open>null\<close> or \<open>undefined\<close> is an
  \<open>option\<close>. A base amount is what \<open>digitsOrNull\<close> lets through: a string of ASCII
  digits, held as the natural number it denotes, or \<open>null\<close>.
\<close>

type_synonym denom = string
type_synonym timestamp = int

section \<open>core/trades.js: the trade sink\<close>

text \<open>The twenty columns \<open>sqlValues\<close> binds for one row, in the order of \<open>INSERT_SQL\<close>.\<close>

record trade =
  pool_id :: int
  pair_contract :: string
  action :: string
  direction :: string
  offer_asset_denom :: "denom option"
  offer_amount_base :: "nat option"
  ask_asset_denom :: "denom option"
  ask_amount_base :: "nat option"
  return_amount_base :: "nat option"
  is_router :: bool
  reserve_asset1_denom :: "denom option"
  reserve_asset1_amount_base :: "nat option"
  reserve_asset2_denom :: "denom option"
  reserve_asset2_amount_base :: "nat option"
  height :: int
  tx_hash :: "string option"
  signer :: "string option"
  msg_index :: int
  created_at :: timestamp
  size_class :: "string option"

text \<open>
  \<open>Number(x) / 1e6\<close> for a base amount \<open>x\<close>. \<open>Number(null)\<close> is \<open>0\<close>. The quotient is
  kept exact: \<open>Number\<close> and the division round to the nearest double, both monotonically,
  and \<open>0\<close>, \<open>1000\<close> and \<open>10000\<close> are doubles no quotient \<open>n / 10^6\<close> of a natural number
  rounds across, so the three comparisons of \<open>insertTrade\<close> give the same answers on
  the exact quotient.
\<close>

definition Number_div_1e6 :: "nat option \<Rightarrow> rat" where
  "Number_div_1e6 x = (case x of None \<Rightarrow> 0 | Some n \<Rightarrow> of_nat n / 1000000)"

text \<open>The first \<open>if\<close> chain of \<open>insertTrade\<close>: the offer leg is tried first, then the ask
  leg, whose amount is read from \<open>return_amount_base\<close>.\<close>

definition zigAmount :: "trade \<Rightarrow> rat" where
  "zigAmount t =
     (if offer_asset_denom t = Some ''uzig'' then Number_div_1e6 (offer_amount_base t)
      else if ask_asset_denom t = Some ''uzig'' then Number_div_1e6 (return_amount_base t)
      else 0)"

text \<open>The second \<open>if\<close> chain: the class assigned to \<open>t.class\<close>.\<close>

definition classOf :: "rat \<Rightarrow> string option" where
  "classOf z =
     (if z > 0 then
        (if z < 1000 then Some ''shrimp''
         else if z < 10000 then Some ''shark''
         else Some ''whale'')
      else None)"

text \<open>\<open>insertTrade(t)\<close> sets the class and pushes the row on \<open>tradesQueue\<close>.\<close>

definition insertTrade :: "trade \<Rightarrow> trade list \<Rightarrow> trade list" where
  "insertTrade t queue = queue @ [t\<lparr>size_class := classOf (zigAmount t)\<rparr>]"

subsection \<open>The flush: one multi-row insert that does nothing on conflict\<close>

text \<open>
  The conflict target \<open>(created_at, tx_hash, pool_id, msg_index)\<close> is served by the
  unique index \<open>uq_trades_tx_pool_msg_time\<close>. Of its four columns only \<open>tx_hash\<close> can be
  \<open>NULL\<close> in a row the block processor builds (\<open>hashes[i] || null\<close>), and a unique
  index of PostgreSQL never takes two rows for duplicates when a key column of one is
  \<open>NULL\<close>: such a row conflicts with nothing.
\<close>

definition conflicts :: "trade \<Rightarrow> trade \<Rightarrow> bool" where
  "conflicts stored new \<longleftrightarrow>
     tx_hash new \<noteq> None \<and>
     created_at stored = created_at new \<and> tx_hash stored = tx_hash new \<and>
     pool_id stored = pool_id new \<and> msg_index stored = msg_index new"

text \<open>
  \<open>flushFn(items)\<close> runs \<open>INSERT_SQL\<close> over the batch. The rows are proposed in order;
  a row that conflicts with a stored row, or with a row the same statement has already
  inserted, is skipped. The table is the list of its rows in insertion order.
\<close>

fun flushFn :: "trade list \<Rightarrow> trade list \<Rightarrow> trade list" where
  "flushFn [] table = table"
| "flushFn (t # items) table =
     flushFn items (if list_ex (\<lambda>s. conflicts s t) table then table else table @ [t])"

text \<open>The batch queue cuts the pushed rows into batches and flushes them one after the
  other.\<close>

fun flushAll :: "trade list list \<Rightarrow> trade list \<Rightarrow> trade list" where
  "flushAll [] table = table"
| "flushAll (batch # batches) table = flushAll batches (flushFn batch table)"

text \<open>A swap row as the block processor builds it, used below as a concrete input.\<close>

definition sampleTrade :: trade where
  "sampleTrade =
     \<lparr> pool_id = 1, pair_contract = ''zig1pair'', action = ''swap'', direction = ''buy'',
       offer_asset_denom = Some ''uzig'', offer_amount_base = Some 1000000,
       ask_asset_denom = Some ''coin.zig1x.tok'', ask_amount_base = None,
       return_amount_base = Some 250000, is_router = False,
       reserve_asset1_denom = Some ''uzig'', reserve_asset1_amount_base = Some 5000000,
       reserve_asset2_denom = Some ''coin.zig1x.tok'', reserve_asset2_amount_base = Some 1250000,
       height = 100, tx_hash = Some ''AB12'', signer = Some ''zig1alice'', msg_index = 0,
       created_at = 1700000000000, size_class = None \<rparr>"

section \<open>api/ws.js: the live broadcaster\<close>

subsection \<open>Control frames\<close>

text \<open>
  What \<open>JSON.parse\<close> returns. A number is held as the text \<open>String\<close> gives for it
  (\<open>''0''\<close> for zero); an object as its members in source order, a repeated key taking
  its last value.
\<close>

datatype json =
    JNull
  | JBool bool
  | JNum string
  | JStr string
  | JArr "json list"
  | JObj "(string \<times> json) list"


fun join :: "string \<Rightarrow> string list \<Rightarrow> string" where
  "join sep [] = []"
| "join sep [x] = x"
| "join sep (x # y # ys) = x @ sep @ join sep (y # ys)"

text \<open>
  \<open>String(v)\<close>, which throws a \<open>TypeError\<close> for some objects: \<open>None\<close>. An object that
  \<open>JSON.parse\<close> built is converted by the \<open>toString\<close> it inherits unless it has a member
  of its own by that name; such a member is no function, the inherited \<open>valueOf\<close> (or a
  member \<open>valueOf\<close>, no function either) yields no primitive, and the conversion throws.
  An array joins the strings of its elements with commas, \<open>null\<close> elements as the empty
  string, and throws where an element does.
\<close>

fun js_String :: "json \<Rightarrow> string option" where
  "js_String JNull = Some ''null''"
| "js_String (JBool b) = Some (if b then ''true'' else ''false'')"
| "js_String (JNum s) = Some s"
| "js_String (JStr s) = Some s"
| "js_String (JArr xs) =
     map_option (join '','') (those (map (\<lambda>x. if x = JNull then Some [] else js_String x) xs))"
| "js_String (JObj kvs) =
     (if ''toString'' \<in> set (map fst kvs) then None else Some ''[object Object]'')"











subsection \<open>Keepalive\<close>

definition HEARTBEAT_MS :: nat where
  "HEARTBEAT_MS = 25000"

datatype readyState = CONNECTING | OPEN | CLOSING | CLOSED

record client =
  ws_id :: nat
  readyState :: readyState

text \<open>The body of the interval callback: a ping to every client of \<open>wss.clients\<close> that is
  open. It touches no client.\<close>

definition heartbeat :: "client list \<Rightarrow> nat list" where
  "heartbeat clients = map ws_id (filter (\<lambda>c. readyState c = OPEN) clients)"

text \<open>
  What can happen to the server between and at the timer's firings: the interval fires
  (every \<open>HEARTBEAT_MS\<close>), a pong arrives from a client, or a client's connection ends,
  which takes it out of \<open>wss.clients\<close>. The server registers no \<open>pong\<close> handler.
\<close>

datatype ws_event = Tick | Pong nat | ConnectionEnded nat

record server =
  clients :: "client list"
  pings :: "nat list"

fun ws_step :: "server \<Rightarrow> ws_event \<Rightarrow> server" where
  "ws_step s Tick = s\<lparr>pings := pings s @ heartbeat (clients s)\<rparr>"
| "ws_step s (Pong c) = s"
| "ws_step s (ConnectionEnded c) = s\<lparr>clients := filter (\<lambda>k. ws_id k \<noteq> c) (clients s)\<rparr>"

definition ws_run :: "server \<Rightarrow> ws_event list \<Rightarrow> server" where
  "ws_run s es = foldl ws_step s es"

subsection \<open>The trade pump\<close>

text \<open>An awaited call either rejects or returns.\<close>

datatype 'a outcome = Rejects | Returns 'a

text \<open>The base token of a pair, as the per-row lookup returns it.\<close>

record base_token =
  b_token_id :: string
  b_symbol :: "string option"
  b_denom :: "string option"

text \<open>The elements of a JavaScript \<open>Set\<close> built from a list, in the order a loop over it
  meets them: each value where it first occurs.\<close>

fun set_order :: "'a list \<Rightarrow> 'a list" where
  "set_order [] = []"
| "set_order (x # xs) = x # set_order (filter (\<lambda>y. y \<noteq> x) xs)"

text \<open>\<open>new Set([String(tok.token_id), tok.symbol, tok.denom].filter(Boolean))\<close>.\<close>

definition token_refs :: "base_token \<Rightarrow> string list" where
  "token_refs tok =
     set_order (filter (\<lambda>r. r \<noteq> [])
       ([b_token_id tok] @ (case b_symbol tok of None \<Rightarrow> [] | Some s \<Rightarrow> [s])
          @ (case b_denom tok of None \<Rightarrow> [] | Some d \<Rightarrow> [d])))"

text \<open>
  What one run of \<open>pumpTrades\<close> meets: the clock, whether \<open>getZigUsd\<close> and the select
  reject, the pair contract the join to \<open>pools\<close> gives for a pool id (none: the row is
  not joined), and the outcome of the base-token lookup for each row.
\<close>

record pump_env =
  now :: timestamp
  getZigUsd_rejects :: bool
  select_rejects :: bool
  pool_pair_contract :: "int \<rightharpoonup> string"
  base_token_lookup :: "nat \<Rightarrow> base_token option outcome"

text \<open>A stored trade: its \<open>trade_id\<close> and its columns. The instant read back from a row
  is the stored one.\<close>

type_synonym stored_trade = "nat \<times> trade"

text \<open>The \<open>WHERE\<close> clause, with the join to \<open>pools\<close>.\<close>

definition selectable :: "pump_env \<Rightarrow> timestamp option \<Rightarrow> stored_trade \<Rightarrow> bool" where
  "selectable env lastSeenIso r \<longleftrightarrow>
     (case lastSeenIso of
        Some w \<Rightarrow> created_at (snd r) > w
      | None \<Rightarrow> created_at (snd r) \<ge> now env - 600000) \<and>
     action (snd r) \<in> {''swap'', ''provide'', ''withdraw''} \<and>
     pool_pair_contract env (pool_id (snd r)) \<noteq> None"

text \<open>\<open>ORDER BY t.created_at ASC LIMIT 200\<close>; rows of equal time stay in table order.\<close>

definition select_rows :: "pump_env \<Rightarrow> timestamp option \<Rightarrow> stored_trade list \<Rightarrow> stored_trade list" where
  "select_rows env lastSeenIso table =
     take 200 (sort_key (\<lambda>r. created_at (snd r)) (filter (selectable env lastSeenIso) table))"

text \<open>A call of \<open>broadcast(topic, {type:'trade', data: shaped})\<close>: the topic and the row the
  payload was shaped from.\<close>

type_synonym broadcast_call = "string \<times> stored_trade"

text \<open>The broadcasts for a row after the global one: one per reference of its base
  token, if the lookup found it, then the pair's topic.\<close>

definition row_topics :: "pump_env \<Rightarrow> stored_trade \<Rightarrow> base_token option \<Rightarrow> broadcast_call list" where
  "row_topics env r bt =
     (case bt of
        None \<Rightarrow> []
      | Some tok \<Rightarrow> map (\<lambda>ref. (''trades.stream.token:'' @ ref, r)) (token_refs tok))
     @ [(''trades.stream.pair:''
           @ (case pool_pair_contract env (pool_id (snd r)) of None \<Rightarrow> [] | Some pc \<Rightarrow> pc), r)]"

text \<open>
  The loop over the selected rows. A row is broadcast on the global topic, then its base
  token is looked up; should the lookup reject, the run ends in the \<open>catch\<close> with the
  watermark where the row before left it. Otherwise the row's other topics follow and
  the watermark moves to the row.
\<close>

fun pump_rows ::
  "pump_env \<Rightarrow> stored_trade list \<Rightarrow> broadcast_call list \<times> timestamp option
     \<Rightarrow> broadcast_call list \<times> timestamp option" where
  "pump_rows env [] st = st"
| "pump_rows env (r # rs) (sent, lastSeenIso) =
     (case base_token_lookup env (fst r) of
        Rejects \<Rightarrow> (sent @ [(''trades.stream'', r)], lastSeenIso)
      | Returns bt \<Rightarrow>
          pump_rows env rs
            (sent @ [(''trades.stream'', r)] @ row_topics env r bt, Some (created_at (snd r))))"

text \<open>One run of \<open>pumpTrades\<close>: the broadcasts it makes and \<open>lastSeenIso\<close> afterwards.\<close>

definition pumpTrades ::
  "pump_env \<Rightarrow> stored_trade list \<Rightarrow> timestamp option \<Rightarrow> broadcast_call list \<times> timestamp option" where
  "pumpTrades env table lastSeenIso =
     (if getZigUsd_rejects env \<or> select_rejects env then ([], lastSeenIso)
      else pump_rows env (select_rows env lastSeenIso table) ([], lastSeenIso))"

text \<open>Successive runs, each with what it meets and the table as it then stands; the
  broadcasts of all runs in order.\<close>

fun pump_runs ::
  "(pump_env \<times> stored_trade list) list \<Rightarrow> timestamp option
     \<Rightarrow> broadcast_call list \<times> timestamp option" where
  "pump_runs [] lastSeenIso = ([], lastSeenIso)"
| "pump_runs ((env, table) # runs) lastSeenIso =
     (let (sent, w) = pumpTrades env table lastSeenIso;
          (later, w') = pump_runs runs w
      in (sent @ later, w'))"

text \<open>Concrete runs used below: a pool joined as \<open>zig1pair\<close>, one stored swap, a second
  one a second later, and a run whose base-token lookup rejects.\<close>

definition pumpEnv :: pump_env where
  "pumpEnv =
     \<lparr> now = 1700000060000, getZigUsd_rejects = False, select_rejects = False,
       pool_pair_contract = [1 \<mapsto> ''zig1pair''],
       base_token_lookup = (\<lambda>i. Returns None) \<rparr>"

definition pumpEnvRejecting :: pump_env where
  "pumpEnvRejecting = pumpEnv\<lparr>base_token_lookup := (\<lambda>i. Rejects)\<rparr>"

definition laterTrade :: trade where
  "laterTrade = sampleTrade\<lparr>created_at := 1700000001000, tx_hash := Some ''CD34''\<rparr>"

section \<open>jobs/fasttrack-listener.js: the fast-track reactor\<close>

text \<open>The row \<open>loadPoolContext\<close> returns.\<close>

record pool_context =
  ctx_pool_id :: int
  ctx_pair_contract :: string
  ctx_is_uzig_quote :: bool
  ctx_created_at :: "timestamp option"
  ctx_base_token_id :: int
  ctx_base_denom :: denom
  ctx_quote_token_id :: int
  ctx_quote_denom :: denom

text \<open>
  \<open>minuteFloor(d)\<close>: \<open>new Date(null)\<close> is the epoch; \<open>setSeconds(0, 0)\<close> clears the seconds
  and milliseconds of the local time, the time of the process's zone. \<open>tza\<close> is the offset
  of that zone from UTC around \<open>d\<close>, in milliseconds: the instant is taken to local time,
  cut to its minute, and taken back.
\<close>

definition minuteFloor :: "int \<Rightarrow> timestamp option \<Rightarrow> timestamp" where
  "minuteFloor tza d =
     (let t = (case d of None \<Rightarrow> 0 | Some t \<Rightarrow> t)
      in ((t + tza) div 60000) * 60000 - tza)"

text \<open>A JavaScript number, as far as the guards on a price tell numbers apart.\<close>

datatype jsnumber = NaN | PosInfinity | NegInfinity | Finite real

text \<open>\<open>price != null && Number.isFinite(price) && price > 0\<close>: the price to write, if the
  guard lets it through.\<close>

fun usable_price :: "jsnumber option \<Rightarrow> real option" where
  "usable_price (Some (Finite p)) = (if p > 0 then Some p else None)"
| "usable_price other = None"

text \<open>The calls the reactor and the block processor make into modules that are not
  modelled further, with their arguments.\<close>

datatype effect =
    UpsertPrice int int real bool
  | UpsertOHLCV1m int timestamp real real nat
  | UpsertPoolState int "denom option" "denom option" "denom option" "nat option" "denom option" "nat option"
  | RefreshMetaOnce denom
  | RefreshHoldersOnce int denom
  | ScanTokenOnce int denom
  | RefreshPoolMatrixOnce int
  | RefreshTokenMatrixOnce int
  | SetTokenMetaFromLCD denom
  | PgNotify_pair_created int string denom denom int int bool
  | Warn string

text \<open>
  What the seed step meets: the row of the exponent query (none, or its \<open>exp\<close>, which may
  be \<open>NULL\<close>), the reserves \<open>fetchPoolReserves\<close> returns, the price
  \<open>priceFromReserves_UZIGQuote\<close> computes from them, whether the two writes reject, and
  the offset of the process's time zone.
\<close>

record 'r seed_env =
  exponent_query :: "int option option outcome"
  fetchPoolReserves :: "'r outcome"
  priceFromReserves_UZIGQuote :: "denom \<Rightarrow> int \<Rightarrow> 'r \<Rightarrow> jsnumber option"
  upsertPrice_rejects :: bool
  upsertOHLCV1m_rejects :: bool
  localTZA :: int

text \<open>
  Step 6 of the handler, in its own \<open>try\<close>: the calls it makes. A rejection anywhere ends
  the step in the \<open>catch\<close>, which warns.
\<close>

definition seed :: "'r seed_env \<Rightarrow> pool_context \<Rightarrow> effect list" where
  "seed env ctx =
     (if ctx_quote_denom ctx = ''uzig'' then
        (case exponent_query env of
           Rejects \<Rightarrow> [Warn ''[fasttrack/init-ohlcv]'']
         | Returns row \<Rightarrow>
             (case (case row of None \<Rightarrow> None | Some e \<Rightarrow> e) of
                None \<Rightarrow> []
              | Some baseExp \<Rightarrow>
                  (case fetchPoolReserves env of
                     Rejects \<Rightarrow> [Warn ''[fasttrack/init-ohlcv]'']
                   | Returns reserves \<Rightarrow>
                       (case usable_price
                               (priceFromReserves_UZIGQuote env (ctx_base_denom ctx) baseExp reserves) of
                          None \<Rightarrow> []
                        | Some price \<Rightarrow>
                            [UpsertPrice (ctx_base_token_id ctx) (ctx_pool_id ctx) price True]
                            @ (if upsertPrice_rejects env then [Warn ''[fasttrack/init-ohlcv]'']
                               else [UpsertOHLCV1m (ctx_pool_id ctx) (minuteFloor (localTZA env) (ctx_created_at ctx))
                                       price 0 0]
                                    @ (if upsertOHLCV1m_rejects env
                                       then [Warn ''[fasttrack/init-ohlcv]''] else []))))))
      else [])"

text \<open>
  What the steps before the seed meet: the context \<open>loadPoolContext\<close> finds, the two
  holder counts, and whether a retried holders refresh rejects. The calls made through
  \<open>Promise.allSettled\<close> cannot end the handler; \<open>holdersCount\<close> and the retried refresh
  are awaited outside it, and a rejection of one of them ends the handler before the
  seed.
\<close>

record 'r fasttrack_env =
  loadPoolContext :: "pool_context option outcome"
  holdersCount :: "int \<Rightarrow> nat outcome"
  refreshHoldersOnce_rejects :: "int \<Rightarrow> bool"
  seed_step :: "'r seed_env"

text \<open>The listener's handler: steps 2 to 5, then the seed. A rejection outside
  \<open>allSettled\<close> ends it in the outer \<open>catch\<close>.\<close>

definition on_pair_created :: "'r fasttrack_env \<Rightarrow> effect list" where
  "on_pair_created env =
     (case loadPoolContext env of
        Rejects \<Rightarrow> [Warn ''[fasttrack]'']
      | Returns None \<Rightarrow> [Warn ''[fasttrack] no context for payload'']
      | Returns (Some ctx) \<Rightarrow>
          (let native = (ctx_quote_denom ctx = ''uzig'');
               steps23 =
                 [RefreshMetaOnce (ctx_base_denom ctx), RefreshMetaOnce (ctx_quote_denom ctx),
                  RefreshHoldersOnce (ctx_base_token_id ctx) (ctx_base_denom ctx)]
                 @ (if native then [] else [RefreshHoldersOnce (ctx_quote_token_id ctx) (ctx_quote_denom ctx)]);
               steps45 =
                 [ScanTokenOnce (ctx_base_token_id ctx) (ctx_base_denom ctx)]
                 @ (if native then [] else [ScanTokenOnce (ctx_quote_token_id ctx) (ctx_quote_denom ctx)])
                 @ [RefreshPoolMatrixOnce (ctx_pool_id ctx), RefreshTokenMatrixOnce (ctx_base_token_id ctx)]
                 @ (if native then [] else [RefreshTokenMatrixOnce (ctx_quote_token_id ctx)])
           in case holdersCount env (ctx_base_token_id ctx) of
                Rejects \<Rightarrow> steps23 @ [Warn ''[fasttrack]'']
              | Returns baseHC \<Rightarrow>
                  (case (if native then Returns 0 else holdersCount env (ctx_quote_token_id ctx)) of
                     Rejects \<Rightarrow> steps23 @ [Warn ''[fasttrack]'']
                   | Returns quoteHC \<Rightarrow>
                       (let retryBase =
                              (if baseHC = 0
                               then [RefreshHoldersOnce (ctx_base_token_id ctx) (ctx_base_denom ctx)]
                               else []);
                            retryQuote =
                              (if \<not> native \<and> quoteHC = 0
                               then [RefreshHoldersOnce (ctx_quote_token_id ctx) (ctx_quote_denom ctx)]
                               else [])
                        in if baseHC = 0 \<and> refreshHoldersOnce_rejects env (ctx_base_token_id ctx)
                           then steps23 @ retryBase @ [Warn ''[fasttrack]'']
                           else if \<not> native \<and> quoteHC = 0
                                   \<and> refreshHoldersOnce_rejects env (ctx_quote_token_id ctx)
                           then steps23 @ retryBase @ retryQuote @ [Warn ''[fasttrack]'']
                           else steps23 @ retryBase @ retryQuote @ steps45 @ seed (seed_step env) ctx))))"

text \<open>A native-quote pool created 56.789 seconds into a minute, with its exponent known
  and reserves that price the base token at 4, in a process whose zone is five and a
  half hours ahead of UTC.\<close>

definition nativeCtx :: pool_context where
  "nativeCtx =
     \<lparr> ctx_pool_id = 1, ctx_pair_contract = ''zig1pair'', ctx_is_uzig_quote = True,
       ctx_created_at = Some 1700000096789, ctx_base_token_id = 3,
       ctx_base_denom = ''coin.zig1x.tok'', ctx_quote_token_id = 2, ctx_quote_denom = ''uzig'' \<rparr>"

definition seedEnv :: "unit seed_env" where
  "seedEnv =
     \<lparr> exponent_query = Returns (Some (Some 6)), fetchPoolReserves = Returns (),
       priceFromReserves_UZIGQuote = (\<lambda>d e r. Some (Finite 4)),
       upsertPrice_rejects = False, upsertOHLCV1m_rejects = False, localTZA = 19800000 \<rparr>"

text \<open>The two writes of the seed step.\<close>

fun is_seed_write :: "effect \<Rightarrow> bool" where
  "is_seed_write (UpsertPrice t p x n) = True"
| "is_seed_write (UpsertOHLCV1m p b x v n) = True"
| "is_seed_write other = False"

definition fasttrackEnv :: "unit fasttrack_env" where
  "fasttrackEnv =
     \<lparr> loadPoolContext = Returns (Some nativeCtx),
       holdersCount = (\<lambda>i. Returns 5), refreshHoldersOnce_rejects = (\<lambda>i. False),
       seed_step = seedEnv \<rparr>"

section \<open>The tables the pool registry writes\<close>

text \<open>Rows of \<open>dex_catalogue\<close>, \<open>tokens\<close> and \<open>pools\<close>, with the columns of the schema that
  the code reads or writes. A nullable column is an \<open>option\<close>.\<close>

record dex_row =
  dex_id :: int
  dex_name :: string
  factory_contract :: string
  dex_chain_id :: "int option"

record token_row =
  token_id :: int
  denom :: denom
  token_type :: string
  exponent :: "int option"

record pool_row =
  p_pool_id :: int
  p_pair_contract :: string
  p_base_token_id :: int
  p_quote_token_id :: int
  p_lp_token_denom :: "string option"
  p_pair_type :: string
  p_is_uzig_quote :: bool
  p_factory_contract :: "string option"
  p_router_contract :: "string option"
  p_created_at :: "timestamp option"
  p_created_height :: "int option"
  p_created_tx_hash :: "string option"
  p_signer :: "string option"
  p_dex_id :: "int option"
  p_chain_id :: "int option"

text \<open>
  The database: the ids of \<open>chain_catalogue\<close>, the three tables with the last value of
  each one's serial sequence, and \<open>index_state\<close> as its rows \<open>(id, last_height)\<close>. A
  sequence moves on for every row proposed for insertion, inserted or not.
\<close>

record db =
  chain_catalogue :: "int list"
  dex_catalogue :: "dex_row list"
  dex_seq :: int
  tokens :: "token_row list"
  token_seq :: int
  pools :: "pool_row list"
  pool_seq :: int
  index_state :: "(string \<times> int) list"

datatype db_error = UniqueViolation string | ForeignKeyViolation string

section \<open>core/pools.js: the pool registry\<close>

text \<open>
  Modelled from the spec: \<open>upsertTokenMinimal\<close> of core/tokens.js, which is not among the
  sources. The spec has it as an idempotent insert-or-return by denom, a new row
  defaulting to type \<open>factory\<close> and exponent 6.
\<close>

definition upsertTokenMinimal :: "denom \<Rightarrow> db \<Rightarrow> int \<times> db" where
  "upsertTokenMinimal d s =
     (case find (\<lambda>t. denom t = d) (tokens s) of
        Some t \<Rightarrow> (token_id t, s)
      | None \<Rightarrow>
          (token_seq s + 1,
           s\<lparr> token_seq := token_seq s + 1,
              tokens := tokens s @ [\<lparr> token_id = token_seq s + 1, denom = d,
                                     token_type = ''factory'', exponent = Some 6 \<rparr>] \<rparr>))"

text \<open>The arguments of \<open>upsertPool\<close>.\<close>

record upsertPool_args =
  pairContract :: string
  baseDenom :: denom
  quoteDenom :: denom
  pairType :: string
  createdAt :: timestamp
  createdHeight :: int
  txHash :: "string option"
  poolSigner :: "string option"
  factoryContract :: string

text \<open>\<open>x || null\<close> for an id read from a row: \<open>0\<close> is falsy.\<close>

definition id_or_null :: "int option \<Rightarrow> int option" where
  "id_or_null x = (case x of None \<Rightarrow> None | Some n \<Rightarrow> if n = 0 then None else Some n)"

text \<open>
  The first part of \<open>upsertPool\<close>: the lookup in \<open>dex_catalogue\<close> and, for a factory with
  no usable \<open>dex_id\<close>, the insert of an \<open>UnknownDEX\<close> row on chain 1, which does nothing
  on a conflict on \<open>factory_contract\<close>. The insert fails when chain 1 is not in
  \<open>chain_catalogue\<close>, or when another row already has the name \<open>UnknownDEX\<close> on chain 1
  (\<open>uq_dex_catalogue_name_chain\<close>). The result is the pair \<open>(dex_id, chain_id)\<close>.
\<close>

definition resolveDex :: "string \<Rightarrow> db \<Rightarrow> (db_error + int option \<times> int option) \<times> db" where
  "resolveDex factory s =
     (let dexRow = find (\<lambda>d. factory_contract d = factory) (dex_catalogue s);
          dex0 = id_or_null (map_option dex_id dexRow);
          chain0 = id_or_null (case dexRow of None \<Rightarrow> None | Some d \<Rightarrow> dex_chain_id d)
      in if dex0 \<noteq> None then (Inr (dex0, chain0), s)
         else
           let s1 = s\<lparr>dex_seq := dex_seq s + 1\<rparr>
           in if dexRow \<noteq> None then (Inr (None, Some (case chain0 of None \<Rightarrow> 1 | Some c \<Rightarrow> c)), s1)
              else if 1 \<notin> set (chain_catalogue s)
                then (Inl (ForeignKeyViolation ''dex_catalogue_chain_id_fkey''), s1)
              else if list_ex (\<lambda>d. dex_name d = ''UnknownDEX'' \<and> dex_chain_id d = Some 1) (dex_catalogue s)
                then (Inl (UniqueViolation ''uq_dex_catalogue_name_chain''), s1)
              else
                (Inr (id_or_null (Some (dex_seq s + 1)),
                      Some (case chain0 of None \<Rightarrow> 1 | Some c \<Rightarrow> c)),
                 s1\<lparr>dex_catalogue := dex_catalogue s @
                      [\<lparr> dex_id = dex_seq s + 1, dex_name = ''UnknownDEX'',
                         factory_contract = factory, dex_chain_id = Some 1 \<rparr>]\<rparr>))"

text \<open>The \<open>DO UPDATE SET\<close> list of the pool upsert, applied to the stored row: the five
  columns it names take the proposed values.\<close>

definition pool_conflict_update ::
  "int \<Rightarrow> int \<Rightarrow> string \<Rightarrow> int option \<Rightarrow> int option \<Rightarrow> pool_row \<Rightarrow> pool_row" where
  "pool_conflict_update baseId quoteId ptype dex chain r =
     r\<lparr> p_base_token_id := baseId, p_quote_token_id := quoteId, p_pair_type := ptype,
        p_dex_id := dex, p_chain_id := chain \<rparr>"

text \<open>
  \<open>upsertPool\<close>: the result (the \<open>pool_id\<close>, or the error the call rejects with) and the
  database afterwards. The pool insert fails when its \<open>chain_id\<close> is not in
  \<open>chain_catalogue\<close>; the other foreign keys hold by construction.
\<close>

definition upsertPool :: "upsertPool_args \<Rightarrow> db \<Rightarrow> (db_error + int) \<times> db" where
  "upsertPool a s =
     (case resolveDex (factoryContract a) s of
        (Inl err, s1) \<Rightarrow> (Inl err, s1)
      | (Inr (dex, chain), s1) \<Rightarrow>
          let (baseId, s2) = upsertTokenMinimal (baseDenom a) s1;
              (quoteId, s3) = upsertTokenMinimal (quoteDenom a) s2;
              isUzig = (quoteDenom a = ''uzig'');
              s4 = s3\<lparr>pool_seq := pool_seq s3 + 1\<rparr>
          in if (case chain of None \<Rightarrow> False | Some c \<Rightarrow> c \<notin> set (chain_catalogue s3))
             then (Inl (ForeignKeyViolation ''pools_chain_id_fkey''), s4)
             else
               (case find (\<lambda>r. p_pair_contract r = pairContract a) (pools s3) of
                  Some old \<Rightarrow>
                    (Inr (p_pool_id old),
                     s4\<lparr>pools := map (\<lambda>r. if p_pair_contract r = pairContract a
                                          then pool_conflict_update baseId quoteId (pairType a) dex chain r
                                          else r) (pools s3)\<rparr>)
                | None \<Rightarrow>
                    (Inr (pool_seq s3 + 1),
                     s4\<lparr>pools := pools s3 @
                          [\<lparr> p_pool_id = pool_seq s3 + 1, p_pair_contract = pairContract a,
                             p_base_token_id = baseId, p_quote_token_id = quoteId,
                             p_lp_token_denom = None, p_pair_type = pairType a,
                             p_is_uzig_quote = isUzig, p_factory_contract = None,
                             p_router_contract = None, p_created_at = Some (createdAt a),
                             p_created_height = Some (createdHeight a),
                             p_created_tx_hash = txHash a, p_signer = poolSigner a,
                             p_dex_id = dex, p_chain_id = chain \<rparr>]\<rparr>)))"

text \<open>The row \<open>poolWithTokens\<close> returns: the pool joined with its two tokens, a \<open>NULL\<close>
  exponent read as 6; \<open>null\<close> when the pool or one of its tokens is missing.\<close>

record pool_tokens =
  pt_pool_id :: int
  pt_is_uzig_quote :: bool
  base_id :: int
  base_denom :: denom
  base_exp :: int
  quote_id :: int
  quote_denom :: denom
  quote_exp :: int

definition poolWithTokens :: "string \<Rightarrow> db \<Rightarrow> pool_tokens option" where
  "poolWithTokens pc s =
     (case find (\<lambda>r. p_pair_contract r = pc) (pools s) of
        None \<Rightarrow> None
      | Some r \<Rightarrow>
          (case (find (\<lambda>t. token_id t = p_base_token_id r) (tokens s),
                 find (\<lambda>t. token_id t = p_quote_token_id r) (tokens s)) of
             (Some b, Some q) \<Rightarrow>
               Some \<lparr> pt_pool_id = p_pool_id r, pt_is_uzig_quote = p_is_uzig_quote r,
                      base_id = token_id b, base_denom = denom b,
                      base_exp = (case exponent b of None \<Rightarrow> 6 | Some e \<Rightarrow> e),
                      quote_id = token_id q, quote_denom = denom q,
                      quote_exp = (case exponent q of None \<Rightarrow> 6 | Some e \<Rightarrow> e) \<rparr>
           | other \<Rightarrow> None))"

text \<open>A database with one chain, one known factory, and an ibc-quoted pool created at
  height 90; and a second \<open>create_pair\<close> for the same pair contract.\<close>

definition sampleDb :: db where
  "sampleDb =
     \<lparr> chain_catalogue = [1],
       dex_catalogue = [\<lparr> dex_id = 1, dex_name = ''OroSwap'', factory_contract = ''zig1factory'',
                           dex_chain_id = Some 1 \<rparr>],
       dex_seq = 1,
       tokens = [\<lparr> token_id = 1, denom = ''coin.zig1x.tok'', token_type = ''factory'', exponent = Some 6 \<rparr>,
                 \<lparr> token_id = 2, denom = ''ibc/27394'', token_type = ''ibc'', exponent = Some 6 \<rparr>],
       token_seq = 2,
       pools = [\<lparr> p_pool_id = 1, p_pair_contract = ''zig1pair'', p_base_token_id = 1,
                   p_quote_token_id = 2, p_lp_token_denom = None, p_pair_type = ''xyk'',
                   p_is_uzig_quote = False, p_factory_contract = None, p_router_contract = None,
                   p_created_at = Some 1690000000000, p_created_height = Some 90,
                   p_created_tx_hash = Some ''AA00'', p_signer = Some ''zig1alice'',
                   p_dex_id = Some 1, p_chain_id = Some 1 \<rparr>],
       pool_seq = 1,
       index_state = [(''block'', 99)] \<rparr>"

definition sampleUpsert :: upsertPool_args where
  "sampleUpsert =
     \<lparr> pairContract = ''zig1pair'', baseDenom = ''coin.zig1x.tok'', quoteDenom = ''uzig'',
       pairType = ''concentrated'', createdAt = 1700000000000, createdHeight = 100,
       txHash = Some ''AB12'', poolSigner = Some ''zig1bob'', factoryContract = ''zig1other'' \<rparr>"

section \<open>core/block-processor.js: the block processor\<close>

subsection \<open>Events and the helpers of core/parse.js\<close>

text \<open>An event of a transaction result: its type and its attribute map \<open>m\<close>.\<close>

record event =
  etype :: string
  m :: "string \<rightharpoonup> string"

text \<open>
  Modelled from the spec: \<open>byType\<close>, \<open>wasmByAction\<close> and \<open>digitsOrNull\<close> of core/parse.js,
  which is not among the sources. \<open>byType\<close> keeps the events of one type;
  \<open>wasmByAction\<close> returns the \<open>wasm\<close> events whose \<open>action\<close> attribute is the given one,
  in order; \<open>digitsOrNull\<close> accepts only strings of ASCII digits, here returned as the
  number they denote.
\<close>

definition byType :: "event list \<Rightarrow> string \<Rightarrow> event list" where
  "byType evs t = filter (\<lambda>e. etype e = t) evs"

definition wasmByAction :: "event list \<Rightarrow> string \<Rightarrow> event list" where
  "wasmByAction evs a = filter (\<lambda>e. etype e = ''wasm'' \<and> m e ''action'' = Some a) evs"

text \<open>The value of a decimal digit: its place among the ten digits.\<close>

fun digit_value :: "char \<Rightarrow> nat" where
  "digit_value c = length (takeWhile (\<lambda>d. d \<noteq> c) ''0123456789'')"

definition digitsOrNull :: "string option \<Rightarrow> nat option" where
  "digitsOrNull x =
     (case x of
        None \<Rightarrow> None
      | Some cs \<Rightarrow>
          if cs \<noteq> [] \<and> list_all (\<lambda>c. c \<in> set ''0123456789'') cs
          then Some (foldl (\<lambda>n c. 10 * n + digit_value c) 0 cs)
          else None)"

text \<open>\<open>a || b\<close> and \<open>a ?? b\<close> on strings that may be \<open>undefined\<close>; the empty string is
  falsy.\<close>

definition truthy :: "string option \<Rightarrow> bool" where
  "truthy x = (case x of None \<Rightarrow> False | Some cs \<Rightarrow> cs \<noteq> [])"

definition js_or :: "string option \<Rightarrow> string option \<Rightarrow> string option" where
  "js_or a b = (if truthy a then a else b)"

definition nullish_or :: "'a option \<Rightarrow> 'a option \<Rightarrow> 'a option" where
  "nullish_or a b = (case a of None \<Rightarrow> b | Some v \<Rightarrow> Some v)"

text \<open>\<open>trim\<close>, on the ASCII white space.\<close>

definition is_space :: "char \<Rightarrow> bool" where
  "is_space c \<longleftrightarrow> c \<in> set [CHR 0x09, CHR 0x0A, CHR 0x0B, CHR 0x0C, CHR 0x0D, CHR 0x20]"

definition js_trim :: "string \<Rightarrow> string" where
  "js_trim cs = rev (dropWhile is_space (rev (dropWhile is_space cs)))"

text \<open>One leg of a parsed \<open>reserves\<close> or assets attribute.\<close>

record leg =
  leg_denom :: "string option"
  leg_amount_base :: "string option"

text \<open>
  The configuration read from the process environment and the helpers of core/parse.js
  and core/prices.js whose code is not among the sources, taken as they come:
  \<open>Number_of\<close> is \<open>Number\<close> on a \<open>msg_index\<close> attribute, which the chain writes as a
  decimal integer.
\<close>

record bp_env =
  ROUTER_ADDR :: "string option"
  BLOCK_PROC_CONCURRENCY :: nat
  MAX_PENDING_TASKS :: nat
  sha256hex :: "string \<Rightarrow> string"
  buildMsgSenderMap :: "event list \<Rightarrow> (int \<rightharpoonup> string)"
  normalizePair :: "string option \<Rightarrow> denom \<times> denom"
  classifyDirection :: "string option \<Rightarrow> denom \<Rightarrow> string"
  parseReservesKV :: "string \<Rightarrow> leg option \<times> leg option"
  parseAssetsList :: "string \<Rightarrow> leg option \<times> leg option"
  priceFromReserves ::
    "denom \<Rightarrow> int \<Rightarrow> denom \<Rightarrow> int \<Rightarrow> (string option \<times> nat option) \<times> (string option \<times> nat option)
       \<Rightarrow> jsnumber option"
  Number_of :: "string \<Rightarrow> int"

subsection \<open>Tasks\<close>

text \<open>What the closure of a swap task and of a liquidity task captured during the scan.\<close>

record swap_task =
  sw_pairContract :: string
  sw_offer :: "string option"
  sw_ask :: "string option"
  sw_offerAmt :: "nat option"
  sw_askAmt :: "nat option"
  sw_retAmt :: "nat option"
  sw_res1d :: "string option"
  sw_res1a :: "nat option"
  sw_res2d :: "string option"
  sw_res2a :: "nat option"
  sw_msgIndex :: int
  sw_signerEOA :: "string option"
  sw_isRouter :: bool
  sw_tx_hash :: "string option"

record liq_task =
  lq_pairContract :: string
  lq_action :: string
  lq_res1d :: "string option"
  lq_res1a :: "nat option"
  lq_res2d :: "string option"
  lq_res2a :: "nat option"
  lq_shareBase :: "nat option"
  lq_msgIndex :: int
  lq_signerEOA :: "string option"
  lq_tx_hash :: "string option"

datatype task =
    PoolTask upsertPool_args
  | SwapTask swap_task
  | LiqTask liq_task
  | PrefetchTask string
  | MetaTask denom

text \<open>
  The state the block processor works on: the database, the trade queue, the two
  module-level caches, the calls made into other modules, and, for every task run, the
  label the scheduler gave it (\<open>trace\<close>), with the labels of the tasks that threw.
\<close>

record bp_state =
  database :: db
  tradesQueue :: "trade list"
  poolsByContract :: "string \<rightharpoonup> pool_tokens"
  metaFetched :: "denom set"
  effects :: "effect list"
  trace :: "(string \<times> nat) list"
  thrown :: "(string \<times> nat) list"

definition getPoolCached :: "string \<Rightarrow> bp_state \<Rightarrow> pool_tokens option \<times> bp_state" where
  "getPoolCached pc s =
     (case poolsByContract s pc of
        Some c \<Rightarrow> (Some c, s)
      | None \<Rightarrow>
          (case poolWithTokens pc (database s) of
             None \<Rightarrow> (None, s)
           | Some p \<Rightarrow> (Some p, s\<lparr>poolsByContract := (poolsByContract s)(pc \<mapsto> p)\<rparr>)))"

text \<open>The exponent the two \<open>SELECT exponent\<close> queries of a task read for a token id.\<close>

definition exponent_of :: "int \<Rightarrow> db \<Rightarrow> int option" where
  "exponent_of tid d = (case find (\<lambda>t. token_id t = tid) (tokens d) of None \<Rightarrow> None | Some t \<Rightarrow> exponent t)"

text \<open>\<open>Number(x || 0)\<close> for a base amount, and \<open>Math.pow(10, e)\<close>, kept exact.\<close>

definition amount_or_0 :: "nat option \<Rightarrow> real" where
  "amount_or_0 x = (case x of None \<Rightarrow> 0 | Some n \<Rightarrow> of_nat n)"

definition pow10 :: "int \<Rightarrow> real" where
  "pow10 e = (if e \<ge> 0 then 10 ^ nat e else 1 / 10 ^ nat (- e))"

text \<open>The body of a pool task: the upsert; then, the call having returned, the pool is
  read back, cached and announced.\<close>

definition run_pool_task :: "upsertPool_args \<Rightarrow> bp_state \<Rightarrow> bool \<times> bp_state" where
  "run_pool_task a s =
     (case upsertPool a (database s) of
        (Inl err, d) \<Rightarrow> (True, s\<lparr>database := d\<rparr>)
      | (Inr pid, d) \<Rightarrow>
          (case poolWithTokens (pairContract a) d of
             None \<Rightarrow> (False, s\<lparr>database := d\<rparr>)
           | Some p \<Rightarrow>
               (False,
                s\<lparr> database := d,
                   poolsByContract := (poolsByContract s)(pairContract a \<mapsto> p),
                   effects := effects s @
                     [PgNotify_pair_created (pt_pool_id p) (pairContract a) (base_denom p)
                        (quote_denom p) (base_id p) (quote_id p) (pt_is_uzig_quote p)] \<rparr>)))"

text \<open>The row a swap task passes to \<open>insertTrade\<close>, for the pool it found.\<close>

definition swap_trade :: "bp_env \<Rightarrow> int \<Rightarrow> timestamp \<Rightarrow> swap_task \<Rightarrow> pool_tokens \<Rightarrow> trade" where
  "swap_trade env h timestamp t pool =
     \<lparr> pool_id = pt_pool_id pool, pair_contract = sw_pairContract t,
       action = ''swap'', direction = classifyDirection env (sw_offer t) (quote_denom pool),
       offer_asset_denom = sw_offer t, offer_amount_base = sw_offerAmt t,
       ask_asset_denom = sw_ask t, ask_amount_base = sw_askAmt t,
       return_amount_base = sw_retAmt t, is_router = sw_isRouter t,
       reserve_asset1_denom = sw_res1d t, reserve_asset1_amount_base = sw_res1a t,
       reserve_asset2_denom = sw_res2d t, reserve_asset2_amount_base = sw_res2a t,
       height = h, tx_hash = sw_tx_hash t, signer = sw_signerEOA t, msg_index = sw_msgIndex t,
       created_at = timestamp, size_class = None \<rparr>"

text \<open>The price part of a swap task, for a native-quote pool: the calls it adds.\<close>

definition swap_price_effects ::
  "bp_env \<Rightarrow> timestamp \<Rightarrow> swap_task \<Rightarrow> pool_tokens \<Rightarrow> db \<Rightarrow> effect list" where
  "swap_price_effects env timestamp t pool d =
     (case (exponent_of (base_id pool) d, exponent_of (quote_id pool) d) of
        (Some baseExp, Some quoteExp) \<Rightarrow>
          (case usable_price (priceFromReserves env (base_denom pool) baseExp (quote_denom pool) quoteExp
                  ((sw_res1d t, sw_res1a t), (sw_res2d t, sw_res2a t))) of
             None \<Rightarrow> []
           | Some price \<Rightarrow>
               [UpsertOHLCV1m (pt_pool_id pool) ((timestamp div 60000) * 60000) price
                  ((if sw_offer t = Some (quote_denom pool) then amount_or_0 (sw_offerAmt t)
                    else amount_or_0 (sw_retAmt t)) / pow10 quoteExp) 1,
                UpsertPrice (base_id pool) (pt_pool_id pool) price False])
      | other \<Rightarrow> [])"

definition run_swap_task :: "bp_env \<Rightarrow> int \<Rightarrow> timestamp \<Rightarrow> swap_task \<Rightarrow> bp_state \<Rightarrow> bool \<times> bp_state" where
  "run_swap_task env h timestamp t s =
     (case getPoolCached (sw_pairContract t) s of
        (None, s1) \<Rightarrow> (False, s1\<lparr>effects := effects s1 @ [Warn ''[swap] unknown pool'']\<rparr>)
      | (Some pool, s1) \<Rightarrow>
          (False,
           s1\<lparr> tradesQueue := insertTrade (swap_trade env h timestamp t pool) (tradesQueue s1),
               effects := effects s1 @
                 [UpsertPoolState (pt_pool_id pool) (Some (base_denom pool)) (Some (quote_denom pool))
                    (sw_res1d t) (sw_res1a t) (sw_res2d t) (sw_res2a t)]
                 @ (if pt_is_uzig_quote pool
                    then swap_price_effects env timestamp t pool (database s1) else []) \<rparr>))"

definition liq_trade :: "int \<Rightarrow> timestamp \<Rightarrow> liq_task \<Rightarrow> pool_tokens \<Rightarrow> trade" where
  "liq_trade h timestamp t pool =
     \<lparr> pool_id = pt_pool_id pool, pair_contract = lq_pairContract t,
       action = lq_action t, direction = lq_action t,
       offer_asset_denom = None, offer_amount_base = None,
       ask_asset_denom = None, ask_amount_base = None,
       return_amount_base = lq_shareBase t, is_router = False,
       reserve_asset1_denom = lq_res1d t, reserve_asset1_amount_base = lq_res1a t,
       reserve_asset2_denom = lq_res2d t, reserve_asset2_amount_base = lq_res2a t,
       height = h, tx_hash = lq_tx_hash t, signer = lq_signerEOA t, msg_index = lq_msgIndex t,
       created_at = timestamp, size_class = None \<rparr>"

definition liq_price_effects :: "bp_env \<Rightarrow> liq_task \<Rightarrow> pool_tokens \<Rightarrow> db \<Rightarrow> effect list" where
  "liq_price_effects env t pool d =
     (case (exponent_of (base_id pool) d, exponent_of (quote_id pool) d) of
        (Some baseExp, Some quoteExp) \<Rightarrow>
          (case usable_price (priceFromReserves env (base_denom pool) baseExp (quote_denom pool) quoteExp
                  ((lq_res1d t, lq_res1a t), (lq_res2d t, lq_res2a t))) of
             None \<Rightarrow> []
           | Some price \<Rightarrow> [UpsertPrice (base_id pool) (pt_pool_id pool) price False])
      | other \<Rightarrow> [])"

definition run_liq_task :: "bp_env \<Rightarrow> int \<Rightarrow> timestamp \<Rightarrow> liq_task \<Rightarrow> bp_state \<Rightarrow> bool \<times> bp_state" where
  "run_liq_task env h timestamp t s =
     (case getPoolCached (lq_pairContract t) s of
        (None, s1) \<Rightarrow> (False, s1)
      | (Some pool, s1) \<Rightarrow>
          (False,
           s1\<lparr> tradesQueue := insertTrade (liq_trade h timestamp t pool) (tradesQueue s1),
               effects := effects s1 @
                 (if pt_is_uzig_quote pool then liq_price_effects env t pool (database s1) else []) \<rparr>))"

definition run_prefetch_task :: "string \<Rightarrow> bp_state \<Rightarrow> bool \<times> bp_state" where
  "run_prefetch_task pc s =
     (if poolsByContract s pc \<noteq> None then (False, s)
      else case poolWithTokens pc (database s) of
             None \<Rightarrow> (False, s)
           | Some p \<Rightarrow> (False, s\<lparr>poolsByContract := (poolsByContract s)(pc \<mapsto> p)\<rparr>))"

text \<open>A task run: whether it threw, and the state it leaves.\<close>

fun run_task :: "bp_env \<Rightarrow> int \<Rightarrow> timestamp \<Rightarrow> task \<Rightarrow> bp_state \<Rightarrow> bool \<times> bp_state" where
  "run_task env h timestamp (PoolTask a) s = run_pool_task a s"
| "run_task env h timestamp (SwapTask t) s = run_swap_task env h timestamp t s"
| "run_task env h timestamp (LiqTask t) s = run_liq_task env h timestamp t s"
| "run_task env h timestamp (PrefetchTask pc) s = run_prefetch_task pc s"
| "run_task env h timestamp (MetaTask d) s = (False, s\<lparr>effects := effects s @ [SetTokenMetaFromLCD d]\<rparr>)"

text \<open>
  Modelled from the spec: \<open>BlockTimer.track\<close> of core/timing.js, which is not among the
  sources. The spec has a task's failure recorded and surfaced in the timer summary
  without cancelling its siblings. The task with index \<open>idx\<close> is tracked under the label
  \<open>labelPrefix#idx\<close>.
\<close>

definition track :: "bp_env \<Rightarrow> int \<Rightarrow> timestamp \<Rightarrow> string \<Rightarrow> bp_state \<Rightarrow> nat \<times> task \<Rightarrow> bp_state" where
  "track env h timestamp labelPrefix s it =
     (let s0 = s\<lparr>trace := trace s @ [(labelPrefix, fst it)]\<rparr>;
          (threw, s1) = run_task env h timestamp (snd it) s0
      in if threw then s1\<lparr>thrown := thrown s1 @ [(labelPrefix, fst it)]\<rparr> else s1)"

text \<open>
  \<open>runWithConcurrency(tasks, limit, T, labelPrefix)\<close>: with no worker (\<open>limit = 0\<close> or no
  task) nothing runs; otherwise every task runs, and the call returns when all have. The
  tasks of a call are run here one after the other in index order, the schedule of a
  single worker.
\<close>

definition runWithConcurrency ::
  "bp_env \<Rightarrow> int \<Rightarrow> timestamp \<Rightarrow> task list \<Rightarrow> nat \<Rightarrow> string \<Rightarrow> bp_state \<Rightarrow> bp_state" where
  "runWithConcurrency env h timestamp tasks limit labelPrefix s =
     (if min limit (length tasks) = 0 then s
      else foldl (track env h timestamp labelPrefix) s (zip [0..<length tasks] tasks))"

subsection \<open>The scan\<close>

text \<open>The lists the scan of a block fills, with the state the scan itself changes
  (\<open>metaFetched\<close>, and everything a flush in mid-scan runs).\<close>

record scan_state =
  poolTasks :: "task list"
  tasks :: "task list"
  lowPrioTasks :: "task list"
  prefetchSet :: "string list"
  st :: bp_state

definition rememberMeta :: "denom \<Rightarrow> scan_state \<Rightarrow> scan_state" where
  "rememberMeta d sc =
     (if d = [] \<or> d \<in> metaFetched (st sc) then sc
      else sc\<lparr> st := (st sc)\<lparr>metaFetched := insert d (metaFetched (st sc))\<rparr>,
               lowPrioTasks := lowPrioTasks sc @ [MetaTask d] \<rparr>)"

definition prefetch_add :: "string \<Rightarrow> scan_state \<Rightarrow> scan_state" where
  "prefetch_add pc sc =
     (if pc \<in> set (prefetchSet sc) then sc else sc\<lparr>prefetchSet := prefetchSet sc @ [pc]\<rparr>)"

text \<open>One turn of the loop over the \<open>create_pair\<close> events of a transaction.\<close>

definition scan_create_pair ::
  "bp_env \<Rightarrow> int \<Rightarrow> timestamp \<Rightarrow> string option \<Rightarrow> event list \<Rightarrow> event list \<Rightarrow> (int \<rightharpoonup> string)
     \<Rightarrow> scan_state \<Rightarrow> event \<Rightarrow> scan_state" where
  "scan_create_pair env h timestamp tx_hash0 wasms insts msgSenderByIndex sc cp =
     (let factoryAddrFromEvent =
            js_trim (case js_or (m cp ''_contract_address'') (Some []) of None \<Rightarrow> [] | Some a \<Rightarrow> a)
      in if factoryAddrFromEvent = [] then sc
         else
           let ptype = (case js_or (m cp ''pair_type'') (Some ''xyk'') of None \<Rightarrow> ''xyk'' | Some t \<Rightarrow> t);
               (base, quote) = normalizePair env (m cp ''pair'');
               reg = find (\<lambda>w. m w ''action'' = Some ''register''
                              \<and> m w ''_contract_address'' = Some factoryAddrFromEvent) wasms;
               poolAddr = js_or (case reg of None \<Rightarrow> None | Some w \<Rightarrow> m w ''pair_contract_addr'')
                                (if insts = [] then None else m (last insts) ''_contract_address'')
           in if \<not> truthy poolAddr
              then sc\<lparr>st := (st sc)\<lparr>effects := effects (st sc)
                       @ [Warn ''create_pair: could not find pool addr'']\<rparr>\<rparr>
              else
                rememberMeta quote (rememberMeta base
                  (sc\<lparr>poolTasks := poolTasks sc @
                     [PoolTask \<lparr> pairContract = (case poolAddr of None \<Rightarrow> [] | Some a \<Rightarrow> a),
                                 baseDenom = base, quoteDenom = quote, pairType = ptype,
                                 createdAt = timestamp, createdHeight = h, txHash = tx_hash0,
                                 poolSigner = js_or (case m cp ''msg_index'' of
                                                       None \<Rightarrow> None
                                                     | Some v \<Rightarrow> msgSenderByIndex (Number_of env v)) None,
                                 factoryContract = factoryAddrFromEvent \<rparr>]\<rparr>)))"

text \<open>Filling a reserve leg that is still missing from a parsed leg: \<open>d ?? k.denom\<close> and
  \<open>a ?? digitsOrNull(k.amount_base)\<close>.\<close>

definition fill_leg :: "leg option \<Rightarrow> string option \<times> nat option \<Rightarrow> string option \<times> nat option" where
  "fill_leg k da =
     (case k of
        None \<Rightarrow> da
      | Some l \<Rightarrow> (nullish_or (fst da) (leg_denom l), nullish_or (snd da) (digitsOrNull (leg_amount_base l))))"

definition fill_legs ::
  "(string \<Rightarrow> leg option \<times> leg option) \<Rightarrow> string option
     \<Rightarrow> (string option \<times> nat option) \<times> (string option \<times> nat option)
     \<Rightarrow> (string option \<times> nat option) \<times> (string option \<times> nat option)" where
  "fill_legs parse str legs =
     (if (\<not> truthy (fst (fst legs)) \<or> snd (fst legs) = None
          \<or> \<not> truthy (fst (snd legs)) \<or> snd (snd legs) = None) \<and> truthy str
      then (fill_leg (fst (parse (case str of None \<Rightarrow> [] | Some x \<Rightarrow> x))) (fst legs),
            fill_leg (snd (parse (case str of None \<Rightarrow> [] | Some x \<Rightarrow> x))) (snd legs))
      else legs)"

text \<open>\<open>Number(attr ?? idx)\<close> for the \<open>msg_index\<close> attribute of the event at position
  \<open>idx\<close>.\<close>

definition msg_index_of :: "bp_env \<Rightarrow> event \<Rightarrow> nat \<Rightarrow> int" where
  "msg_index_of env e idx = (case m e ''msg_index'' of None \<Rightarrow> int idx | Some v \<Rightarrow> Number_of env v)"

text \<open>One turn of the loop over the swaps of a transaction.\<close>

definition scan_swap ::
  "bp_env \<Rightarrow> string option \<Rightarrow> event list \<Rightarrow> (int \<rightharpoonup> string) \<Rightarrow> scan_state \<Rightarrow> nat \<times> event \<Rightarrow> scan_state" where
  "scan_swap env tx_hash0 executes msgSenderByIndex sc it =
     (let s = snd it; pairContract = m s ''_contract_address''
      in if \<not> truthy pairContract then sc
         else
           let legs = fill_legs (parseReservesKV env) (m s ''reserves'')
                        ((js_or (js_or (m s ''reserve_asset1_denom'') (m s ''asset1_denom'')) None,
                          digitsOrNull (js_or (m s ''reserve_asset1_amount'') (m s ''asset1_amount''))),
                         (js_or (js_or (m s ''reserve_asset2_denom'') (m s ''asset2_denom'')) None,
                          digitsOrNull (js_or (m s ''reserve_asset2_amount'') (m s ''asset2_amount''))));
               msgIndex = msg_index_of env s (fst it);
               poolSwapSender = js_or (m s ''sender'') None;
               routerExec = (truthy (ROUTER_ADDR env) \<and>
                  list_ex (\<lambda>e. m e ''_contract_address'' = ROUTER_ADDR env
                       \<and> (if truthy (m e ''msg_index'')
                           then Number_of env (case m e ''msg_index'' of None \<Rightarrow> [] | Some v \<Rightarrow> v)
                           else - 1) = msgIndex) executes);
               sc1 = prefetch_add (case pairContract of None \<Rightarrow> [] | Some a \<Rightarrow> a) sc
           in sc1\<lparr>tasks := tasks sc1 @
                [SwapTask \<lparr> sw_pairContract = (case pairContract of None \<Rightarrow> [] | Some a \<Rightarrow> a),
                            sw_offer = js_or (m s ''offer_asset'') (m s ''offer_asset_denom''),
                            sw_ask = js_or (m s ''ask_asset'') (m s ''ask_asset_denom''),
                            sw_offerAmt = digitsOrNull (m s ''offer_amount''),
                            sw_askAmt = digitsOrNull (m s ''ask_amount''),
                            sw_retAmt = digitsOrNull (m s ''return_amount''),
                            sw_res1d = fst (fst legs), sw_res1a = snd (fst legs),
                            sw_res2d = fst (snd legs), sw_res2a = snd (snd legs),
                            sw_msgIndex = msgIndex,
                            sw_signerEOA = js_or (msgSenderByIndex msgIndex) None,
                            sw_isRouter = (truthy (ROUTER_ADDR env)
                               \<and> (poolSwapSender = ROUTER_ADDR env \<or> routerExec)),
                            sw_tx_hash = tx_hash0 \<rparr>]\<rparr>)"

text \<open>One turn of the loop over the liquidity events of a transaction.\<close>

definition scan_liq ::
  "bp_env \<Rightarrow> string option \<Rightarrow> (int \<rightharpoonup> string) \<Rightarrow> scan_state \<Rightarrow> nat \<times> event \<Rightarrow> scan_state" where
  "scan_liq env tx_hash0 msgSenderByIndex sc it =
     (let le = snd it; pairContract = m le ''_contract_address''
      in if \<not> truthy pairContract then sc
         else
           let isProvide = (m le ''action'' = Some ''provide_liquidity'');
               legs = fill_legs (parseReservesKV env) (m le ''reserves'')
                        (fill_legs (parseAssetsList env)
                           (if isProvide then m le ''assets'' else m le ''refund_assets'')
                           ((js_or (m le ''reserve_asset1_denom'') None,
                             digitsOrNull (m le ''reserve_asset1_amount'')),
                            (js_or (m le ''reserve_asset2_denom'') None,
                             digitsOrNull (m le ''reserve_asset2_amount''))));
               msgIndex = msg_index_of env le (fst it);
               sc1 = prefetch_add (case pairContract of None \<Rightarrow> [] | Some a \<Rightarrow> a) sc
           in sc1\<lparr>tasks := tasks sc1 @
                [LiqTask \<lparr> lq_pairContract = (case pairContract of None \<Rightarrow> [] | Some a \<Rightarrow> a),
                           lq_action = (if isProvide then ''provide'' else ''withdraw''),
                           lq_res1d = fst (fst legs), lq_res1a = snd (fst legs),
                           lq_res2d = fst (snd legs), lq_res2a = snd (snd legs),
                           lq_shareBase = digitsOrNull
                             (if isProvide then m le ''share''
                              else js_or (m le ''withdrawn_share'') (js_or (m le ''withdraw_share'')
                                     (js_or (m le ''liquidity'') (js_or (m le ''burn_share'')
                                        (js_or (m le ''burnt_share'') (m le ''share'')))))),
                           lq_msgIndex = msgIndex,
                           lq_signerEOA = js_or (msgSenderByIndex msgIndex) None,
                           lq_tx_hash = tx_hash0 \<rparr>]\<rparr>)"

text \<open>The three inner loops of one turn of the loop over the transactions.\<close>

definition scan_events ::
  "bp_env \<Rightarrow> int \<Rightarrow> timestamp \<Rightarrow> scan_state \<Rightarrow> event list \<times> string option \<Rightarrow> scan_state" where
  "scan_events env h timestamp sc it =
     (let wasms = byType (fst it) ''wasm'';
          insts = byType (fst it) ''instantiate'';
          executes = byType (fst it) ''execute'';
          msgSenderByIndex = buildMsgSenderMap env (byType (fst it) ''message'');
          sc1 = foldl (scan_create_pair env h timestamp (snd it) wasms insts msgSenderByIndex) sc
                  (wasmByAction wasms ''create_pair'');
          swaps = wasmByAction wasms ''swap'';
          sc2 = foldl (scan_swap env (snd it) executes msgSenderByIndex) sc1
                  (zip [0..<length swaps] swaps);
          liqs = wasmByAction wasms ''provide_liquidity'' @ wasmByAction wasms ''withdraw_liquidity''
      in foldl (scan_liq env (snd it) msgSenderByIndex) sc2 (zip [0..<length liqs] liqs))"

text \<open>
  One turn of the loop over the transactions: the inner loops, then the backpressure
  check, which runs the pending phase-2 tasks at once and empties the list.
\<close>

definition scan_tx ::
  "bp_env \<Rightarrow> int \<Rightarrow> timestamp \<Rightarrow> scan_state \<Rightarrow> event list \<times> string option \<Rightarrow> scan_state" where
  "scan_tx env h timestamp sc it =
     (let sc3 = scan_events env h timestamp sc it
      in if length (tasks sc3) \<ge> MAX_PENDING_TASKS env
         then sc3\<lparr> tasks := [],
                   st := runWithConcurrency env h timestamp (tasks sc3)
                           (BLOCK_PROC_CONCURRENCY env) ''core'' (st sc3) \<rparr>
         else sc3)"

subsection \<open>\<open>processHeight\<close>\<close>

text \<open>A transaction result, the unwrapped block (its header's time, if it has a header,
  and its transactions) and what the two RPC calls give after unwrapping.\<close>

record tx_result =
  events :: "event list"

record block =
  header_time :: "timestamp option"
  txs :: "string list option"

record rpc_result =
  blk :: "block option"
  res :: "tx_result option list option option"

datatype bp_error = RpcRejected | MissingHeader | TypeError

text \<open>\<open>txResults[i] || { events: [] }\<close> and \<open>hashes[i] || null\<close> for \<open>i\<close> below the longer
  of the two arrays.\<close>

definition tx_inputs :: "bp_env \<Rightarrow> string list \<Rightarrow> tx_result option list \<Rightarrow> (event list \<times> string option) list" where
  "tx_inputs env txs0 txResults =
     map (\<lambda>i. ((if i < length txResults
                  then (case txResults ! i of None \<Rightarrow> [] | Some r \<Rightarrow> events r) else []),
                 (if i < length txs0 then js_or (Some (sha256hex env (txs0 ! i))) None else None)))
       [0..<max (length txResults) (length txs0)]"

text \<open>The phases after the scan, on the lists the scan left.\<close>

definition run_phases :: "bp_env \<Rightarrow> int \<Rightarrow> timestamp \<Rightarrow> scan_state \<Rightarrow> bp_state" where
  "run_phases env h timestamp sc =
     (let s1 = (if poolTasks sc \<noteq> []
                then runWithConcurrency env h timestamp (poolTasks sc) (BLOCK_PROC_CONCURRENCY env)
                       ''pools'' (st sc)
                else st sc);
          s2 = (if prefetchSet sc \<noteq> []
                then runWithConcurrency env h timestamp (map PrefetchTask (prefetchSet sc))
                       (min (BLOCK_PROC_CONCURRENCY env) 24) ''prefetch'' s1
                else s1);
          s3 = (if tasks sc \<noteq> []
                then runWithConcurrency env h timestamp (tasks sc) (BLOCK_PROC_CONCURRENCY env)
                       ''core'' s2
                else s2)
      in if lowPrioTasks sc \<noteq> []
         then runWithConcurrency env h timestamp (lowPrioTasks sc)
                (min 4 (BLOCK_PROC_CONCURRENCY env)) ''meta'' s3
         else s3)"

text \<open>
  \<open>processHeight(h)\<close>: the error it rejects with, if any, and the state it leaves. The
  function ends after the low-priority tasks and the logging of the timer's summary.
\<close>

definition processHeight :: "bp_env \<Rightarrow> int \<Rightarrow> rpc_result outcome \<Rightarrow> bp_state \<Rightarrow> bp_error option \<times> bp_state" where
  "processHeight env h rpc s =
     (case rpc of
        Rejects \<Rightarrow> (Some RpcRejected, s)
      | Returns r \<Rightarrow>
          (case (case blk r of None \<Rightarrow> None | Some b \<Rightarrow> header_time b) of
             None \<Rightarrow> (Some MissingHeader, s)
           | Some timestamp \<Rightarrow>
               (case res r of
                  None \<Rightarrow> (Some TypeError, s)
                | Some txs_results \<Rightarrow>
                    (None,
                     run_phases env h timestamp
                       (foldl (scan_tx env h timestamp)
                          \<lparr> poolTasks = [], tasks = [], lowPrioTasks = [], prefetchSet = [], st = s \<rparr>
                          (tx_inputs env
                             (case (case blk r of None \<Rightarrow> None | Some b \<Rightarrow> txs b) of
                                None \<Rightarrow> [] | Some l \<Rightarrow> l)
                             (case txs_results of None \<Rightarrow> [] | Some l \<Rightarrow> l)))))))"

text \<open>The rows of \<open>index_state\<close>, the height watermark.\<close>

definition watermark :: "bp_state \<Rightarrow> (string \<times> int) list" where
  "watermark s = index_state (database s)"

subsection \<open>A block with a new pair and a swap on it\<close>

text \<open>
  A configuration with the defaults, and helpers that answer as core/parse.js would on
  the events below; one transaction that creates the pair \<open>zig1newpair\<close> and swaps
  1000000 \<open>uzig\<close> on it; a state whose database does not know the pair yet.
\<close>

definition bpEnv :: bp_env where
  "bpEnv =
     \<lparr> ROUTER_ADDR = None, BLOCK_PROC_CONCURRENCY = 12, MAX_PENDING_TASKS = 5000,
       sha256hex = (\<lambda>tx. ''AB12''),
       buildMsgSenderMap = (\<lambda>msgs. [0 \<mapsto> ''zig1alice'']),
       normalizePair = (\<lambda>p. (''coin.zig1x.tok'', ''uzig'')),
       classifyDirection = (\<lambda>offer quote. if offer = Some quote then ''buy'' else ''sell''),
       parseReservesKV = (\<lambda>x. (None, None)),
       parseAssetsList = (\<lambda>x. (None, None)),
       priceFromReserves = (\<lambda>b be q qe legs. Some (Finite 4)),
       Number_of = (\<lambda>x. 0) \<rparr>"

definition createPairEvent :: event where
  "createPairEvent =
     \<lparr> etype = ''wasm'',
       m = map_of [(''action'', ''create_pair''), (''_contract_address'', ''zig1factory''),
                   (''pair'', ''coin.zig1x.tok-uzig''), (''pair_type'', ''xyk''), (''msg_index'', ''0'')] \<rparr>"

definition registerEvent :: event where
  "registerEvent =
     \<lparr> etype = ''wasm'',
       m = map_of [(''action'', ''register''), (''_contract_address'', ''zig1factory''),
                   (''pair_contract_addr'', ''zig1newpair'')] \<rparr>"

definition swapEvent :: event where
  "swapEvent =
     \<lparr> etype = ''wasm'',
       m = map_of [(''action'', ''swap''), (''_contract_address'', ''zig1newpair''),
                   (''offer_asset'', ''uzig''), (''ask_asset'', ''coin.zig1x.tok''),
                   (''offer_amount'', ''1000000''), (''return_amount'', ''250000''),
                   (''reserve_asset1_denom'', ''uzig''), (''reserve_asset1_amount'', ''5000000''),
                   (''reserve_asset2_denom'', ''coin.zig1x.tok''), (''reserve_asset2_amount'', ''1250000''),
                   (''msg_index'', ''0'')] \<rparr>"

definition sampleRpc :: "rpc_result outcome" where
  "sampleRpc =
     Returns \<lparr> blk = Some \<lparr> header_time = Some 1700000000000, txs = Some [''dHg=''] \<rparr>,
               res = Some (Some [Some \<lparr> events = [createPairEvent, registerEvent, swapEvent] \<rparr>]) \<rparr>"

definition sampleState :: bp_state where
  "sampleState =
     \<lparr> database = sampleDb, tradesQueue = [], poolsByContract = Map.empty, metaFetched = {},
       effects = [], trace = [], thrown = [] \<rparr>"



text \<open>The tasks the scan of that transaction builds, and the new pool as
  \<open>poolWithTokens\<close> returns it once the pool task has run.\<close>

definition scannedSwap :: swap_task where
  "scannedSwap =
     \<lparr> sw_pairContract = ''zig1newpair'', sw_offer = Some ''uzig'', sw_ask = Some ''coin.zig1x.tok'',
       sw_offerAmt = Some 1000000, sw_askAmt = None, sw_retAmt = Some 250000,
       sw_res1d = Some ''uzig'', sw_res1a = Some 5000000,
       sw_res2d = Some ''coin.zig1x.tok'', sw_res2a = Some 1250000,
       sw_msgIndex = 0, sw_signerEOA = Some ''zig1alice'', sw_isRouter = False,
       sw_tx_hash = Some ''AB12'' \<rparr>"

definition scannedPool :: upsertPool_args where
  "scannedPool =
     \<lparr> pairContract = ''zig1newpair'', baseDenom = ''coin.zig1x.tok'', quoteDenom = ''uzig'',
       pairType = ''xyk'', createdAt = 1700000000000, createdHeight = 100,
       txHash = Some ''AB12'', poolSigner = Some ''zig1alice'', factoryContract = ''zig1factory'' \<rparr>"

definition newPool :: pool_tokens where
  "newPool =
     \<lparr> pt_pool_id = 2, pt_is_uzig_quote = True, base_id = 1, base_denom = ''coin.zig1x.tok'',
       base_exp = 6, quote_id = 3, quote_denom = ''uzig'', quote_exp = 6 \<rparr>"

text \<open>
  Modelled from the spec: \<open>classifyDirection\<close> of core/parse.js, whose code is not among
  the sources. The spec's rule for a swap is \<open>buy\<close> if the offer denom is the pool's quote
  denom, \<open>sell\<close> if it is the base denom, else by the ask denom; its direction property
  has a \<open>buy\<close> only where the offer denom is the quote denom. The swap task hands the
  function the offer denom and the quote denom and nothing else, so what is modelled is
  the rule on these two: \<open>buy\<close> where they are equal, \<open>sell\<close> where they are not. On an
  offer denom that is present no other function of the two follows the first two clauses
  of the rule on every pool, any denom but the quote denom being the base denom of some
  pool. It is what the field \<open>classifyDirection\<close> of the environment is taken to be
  where the direction itself is at issue.
\<close>

definition classifyDirection_spec :: "string option \<Rightarrow> denom \<Rightarrow> string" where
  "classifyDirection_spec offer quote = (if offer = Some quote then ''buy'' else ''sell'')"


section \<open>Properties of the trade sink\<close>

lemma flushFn_append: "flushFn (xs @ ys) table = flushFn ys (flushFn xs table)"
  by (induction xs arbitrary: table) simp_all

lemma flushAll_concat: "flushAll batches table = flushFn (concat batches) table"
  by (induction batches arbitrary: table) (simp_all add: flushFn_append)

lemma flushFn_prefix: "\<exists>new. flushFn items table = table @ new"
proof (induction items arbitrary: table)
  case Nil
  show ?case by simp
next
  case (Cons t items)
  obtain new where "flushFn items (if list_ex (\<lambda>s. conflicts s t) table then table else table @ [t])
      = (if list_ex (\<lambda>s. conflicts s t) table then table else table @ [t]) @ new"
    using Cons.IH by blast
  then show ?case by (cases "list_ex (\<lambda>s. conflicts s t) table") auto
qed

lemma flushFn_skip_all:
  "list_all (\<lambda>t. list_ex (\<lambda>s. conflicts s t) table) items \<Longrightarrow> flushFn items table = table"
  by (induction items) simp_all

lemma conflicts_self: "tx_hash t \<noteq> None \<Longrightarrow> conflicts t t"
  by (simp add: conflicts_def)

lemma flushFn_covers:
  "list_all (\<lambda>t. tx_hash t \<noteq> None) items \<Longrightarrow>
   list_all (\<lambda>t. list_ex (\<lambda>s. conflicts s t) (flushFn items table)) items"
proof (induction items arbitrary: table)
  case Nil
  show ?case by simp
next
  case (Cons t items)
  define table' where "table' = (if list_ex (\<lambda>s. conflicts s t) table then table else table @ [t])"
  have hit: "list_ex (\<lambda>s. conflicts s t) table'"
    using Cons.prems by (simp add: table'_def conflicts_self list_ex_iff)
  obtain new where new: "flushFn items table' = table' @ new"
    using flushFn_prefix by blast
  have "list_ex (\<lambda>s. conflicts s t) (flushFn items table')"
    using hit by (auto simp: new list_ex_iff)
  moreover have "list_all (\<lambda>u. list_ex (\<lambda>s. conflicts s u) (flushFn items table')) items"
    using Cons.IH Cons.prems by simp
  ultimately show ?case by (simp add: table'_def)
qed

text \<open>Rows that all carry a transaction hash: a second flush of the same rows changes
  nothing, however the rows were cut into batches.\<close>

lemma flushFn_idempotent_hashed:
  "list_all (\<lambda>t. tx_hash t \<noteq> None) items \<Longrightarrow>
   flushFn items (flushFn items table) = flushFn items table"
  by (rule flushFn_skip_all) (rule flushFn_covers)


lemma flushFn_replays:
  "list_all (\<lambda>t. tx_hash t \<noteq> None) items \<Longrightarrow>
   ((flushFn items) ^^ Suc n) table = flushFn items table"
  by (induction n) (simp_all add: flushFn_idempotent_hashed)

text \<open>
  C1. Trade insertion is meant to be idempotent: flushing the same rows twice should leave
  the table as one flush does. A row the block processor built without a transaction hash
  (\<open>tx_hash = null\<close>, the case \<open>hashes[i] || null\<close> provides for) conflicts with
  nothing: flushed twice into an empty table it is stored twice, where one flush stores
  it once.
\<close>

theorem flushFn_replay_without_hash:
  "flushFn [sampleTrade\<lparr>tx_hash := None\<rparr>] (flushFn [sampleTrade\<lparr>tx_hash := None\<rparr>] [])
     = [sampleTrade\<lparr>tx_hash := None\<rparr>, sampleTrade\<lparr>tx_hash := None\<rparr>]
   \<and> flushFn [sampleTrade\<lparr>tx_hash := None\<rparr>] [] = [sampleTrade\<lparr>tx_hash := None\<rparr>]"
  by (simp add: conflicts_def)

text \<open>
  C4 as stated fails where the native leg's amount is zero: with \<open>uzig\<close> offered and an
  offer amount of \<open>0\<close>, \<open>z = 0 < 1000\<close>, and the class is \<open>null\<close>, not \<open>shrimp\<close>.
\<close>

theorem insertTrade_zero_native_leg:
  "offer_asset_denom (sampleTrade\<lparr>offer_amount_base := Some 0\<rparr>) = Some ''uzig''
   \<and> Number_div_1e6 (offer_amount_base (sampleTrade\<lparr>offer_amount_base := Some 0\<rparr>)) < 1000
   \<and> size_class (last (insertTrade (sampleTrade\<lparr>offer_amount_base := Some 0\<rparr>) [])) = None"
  by (simp add: sampleTrade_def Number_div_1e6_def insertTrade_def zigAmount_def classOf_def)

text \<open>
  C4, amended. \<open>insertTrade\<close> takes \<open>z\<close> from the offer amount when the offer denom is
  \<open>uzig\<close>, else from the return amount when the ask denom is \<open>uzig\<close>; a \<open>null\<close> amount
  counts as \<open>0\<close>. The row it enqueues has class \<open>shrimp\<close> for \<open>0 < z < 1000\<close>, \<open>shark\<close>
  for \<open>1000 \<le> z < 10000\<close>, \<open>whale\<close> for \<open>z \<ge> 10000\<close>, and \<open>null\<close> when \<open>z = 0\<close> or
  neither leg is \<open>uzig\<close>.
\<close>

theorem insertTrade_class:
  "(offer_asset_denom t = Some ''uzig'' \<longrightarrow> zigAmount t = Number_div_1e6 (offer_amount_base t)) \<and>
   (offer_asset_denom t \<noteq> Some ''uzig'' \<and> ask_asset_denom t = Some ''uzig'' \<longrightarrow>
      zigAmount t = Number_div_1e6 (return_amount_base t)) \<and>
   (offer_asset_denom t \<noteq> Some ''uzig'' \<and> ask_asset_denom t \<noteq> Some ''uzig'' \<longrightarrow>
      size_class (last (insertTrade t queue)) = None) \<and>
   (0 < zigAmount t \<and> zigAmount t < 1000 \<longrightarrow>
      size_class (last (insertTrade t queue)) = Some ''shrimp'') \<and>
   (1000 \<le> zigAmount t \<and> zigAmount t < 10000 \<longrightarrow>
      size_class (last (insertTrade t queue)) = Some ''shark'') \<and>
   (10000 \<le> zigAmount t \<longrightarrow> size_class (last (insertTrade t queue)) = Some ''whale'') \<and>
   (zigAmount t \<le> 0 \<longrightarrow> size_class (last (insertTrade t queue)) = None)"
  by (simp add: insertTrade_def zigAmount_def classOf_def)

lemma zigAmount_sample_offer:
  "zigAmount (sampleTrade\<lparr>offer_amount_base := Some n\<rparr>) = of_nat n / 1000000"
  by (simp add: zigAmount_def sampleTrade_def Number_div_1e6_def)

lemma zigAmount_sample_ask:
  "zigAmount (sampleTrade\<lparr>offer_asset_denom := Some ''coin.zig1x.tok'',
      ask_asset_denom := Some ''uzig'', return_amount_base := Some n\<rparr>) = of_nat n / 1000000"
  by (simp add: zigAmount_def sampleTrade_def Number_div_1e6_def)

theorem insertTrade_class_witness:
  "size_class (last (insertTrade (sampleTrade\<lparr>offer_amount_base := Some 999999999\<rparr>) []))
      = Some ''shrimp'' \<and>
   size_class (last (insertTrade (sampleTrade\<lparr>offer_amount_base := Some 1000000000\<rparr>) []))
      = Some ''shark'' \<and>
   size_class (last (insertTrade (sampleTrade\<lparr>offer_amount_base := Some 9999999999\<rparr>) []))
      = Some ''shark'' \<and>
   size_class (last (insertTrade (sampleTrade\<lparr>offer_asset_denom := Some ''coin.zig1x.tok'',
      ask_asset_denom := Some ''uzig'', return_amount_base := Some 10000000000\<rparr>) []))
      = Some ''whale'' \<and>
   size_class (last (insertTrade (sampleTrade\<lparr>offer_asset_denom := None,
      ask_asset_denom := None\<rparr>) [])) = None"
  using insertTrade_class [of "sampleTrade\<lparr>offer_amount_base := Some 999999999\<rparr>" "[]"]
    insertTrade_class [of "sampleTrade\<lparr>offer_amount_base := Some 1000000000\<rparr>" "[]"]
    insertTrade_class [of "sampleTrade\<lparr>offer_amount_base := Some 9999999999\<rparr>" "[]"]
    insertTrade_class [of "sampleTrade\<lparr>offer_asset_denom := Some ''coin.zig1x.tok'',
      ask_asset_denom := Some ''uzig'', return_amount_base := Some 10000000000\<rparr>" "[]"]
    insertTrade_class [of "sampleTrade\<lparr>offer_asset_denom := None, ask_asset_denom := None\<rparr>" "[]"]
  by (simp add: zigAmount_sample_offer zigAmount_sample_ask)


section \<open>Properties of the live broadcaster\<close>

subsection \<open>Control frames\<close>




text \<open>The conversion throws for no number, string or boolean, and for an object exactly
  when it has a member \<open>toString\<close>.\<close>

lemma js_String_throws:
  "js_String (JBool b) \<noteq> None \<and> js_String (JNum n) \<noteq> None \<and> js_String (JStr t) \<noteq> None \<and>
   (js_String (JObj kvs) = None \<longleftrightarrow> ''toString'' \<in> fst ` set kvs)"
  by simp





subsection \<open>Keepalive\<close>

text \<open>
  C8 as stated fails in its second half: a client that answers no ping is pinged again at
  the next firing and stays connected. Here the timer fires twice with no pong in
  between.
\<close>

theorem heartbeat_keeps_silent_client:
  "ws_run \<lparr>clients = [\<lparr>ws_id = 7, readyState = OPEN\<rparr>], pings = []\<rparr> [Tick, Tick]
     = \<lparr>clients = [\<lparr>ws_id = 7, readyState = OPEN\<rparr>], pings = [7, 7]\<rparr>"
  by (simp add: ws_run_def heartbeat_def)

lemma ws_run_clients:
  "clients (foldl ws_step s es) = filter (\<lambda>k. ConnectionEnded (ws_id k) \<notin> set es) (clients s)"
proof (induction es arbitrary: s)
  case Nil
  show ?case by simp
next
  case (Cons e es)
  show ?case
    by (cases e) (auto simp: Cons.IH intro: filter_cong)
qed

text \<open>
  C8, amended. The interval is 25000 ms; each firing pings every open client and only
  those; the server itself never takes a client out: after any events, the clients are
  the ones whose connection did not end, whether or not they answered.
\<close>

theorem heartbeat_pings_open_drops_none:
  "HEARTBEAT_MS = 25000 \<and>
   pings (ws_step s Tick) = pings s @ map ws_id (filter (\<lambda>c. readyState c = OPEN) (clients s)) \<and>
   clients (ws_run s es) = filter (\<lambda>k. ConnectionEnded (ws_id k) \<notin> set es) (clients s)"
  by (simp add: HEARTBEAT_MS_def heartbeat_def ws_run_def ws_run_clients)

subsection \<open>The trade pump\<close>

lemma select_rows_props:
  "length (select_rows env w table) \<le> 200 \<and>
   sorted (map (\<lambda>r. created_at (snd r)) (select_rows env w table)) \<and>
   set (select_rows env w table) \<subseteq> {r \<in> set table. selectable env w r}"
proof -
  have "set (take 200 (sort_key (\<lambda>r. created_at (snd r)) (filter (selectable env w) table)))
         \<subseteq> set (sort_key (\<lambda>r. created_at (snd r)) (filter (selectable env w) table))"
    by (rule set_take_subset)
  moreover have "sorted (map (\<lambda>r. created_at (snd r))
      (take 200 (sort_key (\<lambda>r. created_at (snd r)) (filter (selectable env w) table))))"
    by (simp add: take_map [symmetric] sorted_wrt_take)
  ultimately show ?thesis by (auto simp: select_rows_def)
qed

lemma row_topics_rows: "snd ` set (row_topics env r bt) \<subseteq> {r}"
  by (auto simp: row_topics_def split: option.splits)

lemma pump_rows_sent:
  "pump_rows env rs (sent0, w0) = (sent, w) \<Longrightarrow> snd ` set sent \<subseteq> snd ` set sent0 \<union> set rs"
proof (induction rs arbitrary: sent0 w0)
  case Nil
  then show ?case by auto
next
  case (Cons r rs)
  show ?case
  proof (cases "base_token_lookup env (fst r)")
    case Rejects
    with Cons.prems show ?thesis by auto
  next
    case (Returns bt)
    with Cons.prems have "pump_rows env rs
        (sent0 @ [(''trades.stream'', r)] @ row_topics env r bt, Some (created_at (snd r))) = (sent, w)"
      by simp
    from Cons.IH [OF this]
    have "snd ` set sent \<subseteq> snd ` set (sent0 @ [(''trades.stream'', r)] @ row_topics env r bt) \<union> set rs" .
    moreover have "snd ` set (sent0 @ [(''trades.stream'', r)] @ row_topics env r bt)
        \<subseteq> snd ` set sent0 \<union> {r}"
      using row_topics_rows [of env r bt] by (simp add: image_Un) blast
    ultimately show ?thesis by (simp only: set_simps) blast
  qed
qed

lemma pump_rows_watermark:
  "pump_rows env rs (sent0, w0) = (sent, w) \<Longrightarrow>
   w = w0 \<or> (\<exists>r \<in> set rs. w = Some (created_at (snd r)))"
proof (induction rs arbitrary: sent0 w0)
  case Nil
  then show ?case by simp
next
  case (Cons r rs)
  show ?case
  proof (cases "base_token_lookup env (fst r)")
    case Rejects
    with Cons.prems show ?thesis by simp
  next
    case (Returns bt)
    with Cons.prems Cons.IH show ?thesis by fastforce
  qed
qed

lemma pump_rows_clean:
  "list_all (\<lambda>r. base_token_lookup env (fst r) \<noteq> Rejects) rs \<Longrightarrow> rs \<noteq> [] \<Longrightarrow>
   snd (pump_rows env rs (sent0, w0)) = Some (created_at (snd (last rs)))"
proof (induction rs arbitrary: sent0 w0)
  case Nil
  then show ?case by simp
next
  case (Cons r rs)
  then obtain bt where bt: "base_token_lookup env (fst r) = Returns bt"
    by (cases "base_token_lookup env (fst r)") auto
  show ?case
  proof (cases "rs = []")
    case True
    then show ?thesis by (simp add: bt)
  next
    case False
    then show ?thesis using Cons.IH Cons.prems by (simp add: bt)
  qed
qed

lemma row_topics_last: "snd (last (row_topics env r bt)) = r"
  by (simp add: row_topics_def)

lemma row_topics_not_Nil: "row_topics env r bt \<noteq> []"
  by (simp add: row_topics_def)

lemma pump_rows_last_row:
  "list_all (\<lambda>r. base_token_lookup env (fst r) \<noteq> Rejects) rs \<Longrightarrow> rs \<noteq> [] \<Longrightarrow>
   fst (pump_rows env rs (sent0, w0)) \<noteq> [] \<and>
   snd (last (fst (pump_rows env rs (sent0, w0)))) = last rs"
proof (induction rs arbitrary: sent0 w0)
  case Nil
  then show ?case by simp
next
  case (Cons r rs)
  then obtain bt where bt: "base_token_lookup env (fst r) = Returns bt"
    by (cases "base_token_lookup env (fst r)") auto
  show ?case
  proof (cases "rs = []")
    case True
    then show ?thesis by (simp add: bt row_topics_last row_topics_not_Nil)
  next
    case False
    then show ?thesis using Cons.IH Cons.prems by (simp add: bt)
  qed
qed

lemma pump_rows_last:
  assumes "list_all (\<lambda>r. base_token_lookup env (fst r) \<noteq> Rejects) rs"
    and "pump_rows env rs ([], w0) = (sent, w1)"
  shows "sent \<noteq> [] \<longrightarrow> w1 = Some (created_at (snd (snd (last sent))))"
proof (cases "rs = []")
  case True
  with assms(2) show ?thesis by simp
next
  case False
  from pump_rows_last_row [OF assms(1) False, of "[]" w0] pump_rows_clean [OF assms(1) False, of "[]" w0]
  show ?thesis by (simp add: assms(2))
qed

lemma sorted_le_last:
  "sorted (map f rs) \<Longrightarrow> r \<in> set rs \<Longrightarrow> f r \<le> f (last rs)"
  by (induction rs) (auto split: if_splits)

text \<open>A run from a set watermark broadcasts only later rows and never moves it back.\<close>

lemma pumpTrades_after_watermark:
  assumes "pumpTrades env table (Some w) = (sent, w')"
  shows "(\<forall>b \<in> set sent. w < created_at (snd (snd b))) \<and> (\<exists>v. w' = Some v \<and> w \<le> v)"
proof (cases "getZigUsd_rejects env \<or> select_rejects env")
  case True
  with assms have "sent = []" and "w' = Some w"
    by (auto simp: pumpTrades_def)
  then show ?thesis by simp
next
  case False
  let ?rows = "select_rows env (Some w) table"
  have run: "pump_rows env ?rows ([], Some w) = (sent, w')"
    using assms False by (simp add: pumpTrades_def)
  have later: "\<forall>r \<in> set ?rows. w < created_at (snd r)"
    using select_rows_props [of env "Some w" table] by (auto simp: selectable_def)
  have "snd ` set sent \<subseteq> set ?rows"
    using pump_rows_sent [OF run] by simp
  with later have "\<forall>b \<in> set sent. w < created_at (snd (snd b))" by auto
  moreover have "\<exists>v. w' = Some v \<and> w \<le> v"
    using pump_rows_watermark [OF run] later by auto
  ultimately show ?thesis by simp
qed

lemma pump_runs_after_watermark:
  "pump_runs runs (Some w) = (sent, w') \<Longrightarrow>
   (\<forall>b \<in> set sent. w < created_at (snd (snd b))) \<and> (\<exists>v. w' = Some v \<and> w \<le> v)"
proof (induction runs arbitrary: w sent w')
  case Nil
  then show ?case by auto
next
  case (Cons run runs)
  obtain env table where run: "run = (env, table)" by (cases run)
  obtain s1 w1 where first: "pumpTrades env table (Some w) = (s1, w1)"
    by (cases "pumpTrades env table (Some w)")
  obtain s2 w2 where rest: "pump_runs runs w1 = (s2, w2)"
    by (cases "pump_runs runs w1")
  from pumpTrades_after_watermark [OF first]
  obtain v where v: "w1 = Some v" "w \<le> v" and s1: "\<forall>b \<in> set s1. w < created_at (snd (snd b))"
    by auto
  from Cons.IH [of v s2 w2] rest v
  have s2: "\<forall>b \<in> set s2. v < created_at (snd (snd b))" and w2: "\<exists>u. w2 = Some u \<and> v \<le> u"
    by auto
  have "sent = s1 @ s2" "w' = w2"
    using Cons.prems run first rest by simp_all
  then show ?case using s1 s2 w2 v by fastforce
qed

text \<open>A run in which nothing rejects leaves the watermark at or after every row it broadcast.\<close>

lemma pumpTrades_clean:
  assumes ok: "\<not> getZigUsd_rejects env" "\<not> select_rejects env"
      "list_all (\<lambda>r. base_token_lookup env (fst r) \<noteq> Rejects) table"
    and run: "pumpTrades env table w0 = (sent, w')"
    and sent: "sent \<noteq> []"
  shows "\<exists>v. w' = Some v \<and> (\<forall>b \<in> set sent. created_at (snd (snd b)) \<le> v)"
proof -
  let ?rows = "select_rows env w0 table"
  have rows: "pump_rows env ?rows ([], w0) = (sent, w')"
    using run ok by (simp add: pumpTrades_def)
  have ne: "?rows \<noteq> []" using rows sent by auto
  have "set ?rows \<subseteq> set table" using select_rows_props [of env w0 table] by auto
  then have clean: "list_all (\<lambda>r. base_token_lookup env (fst r) \<noteq> Rejects) ?rows"
    using ok(3) by (auto simp: list_all_iff)
  have w': "w' = Some (created_at (snd (last ?rows)))"
    using pump_rows_clean [OF clean ne, of "[]" w0] rows by simp
  have "snd ` set sent \<subseteq> set ?rows" using pump_rows_sent [OF rows] by simp
  moreover have "\<forall>r \<in> set ?rows. created_at (snd r) \<le> created_at (snd (last ?rows))"
    using select_rows_props [of env w0 table] sorted_le_last [of "\<lambda>r. created_at (snd r)" ?rows]
    by blast
  ultimately show ?thesis using w' by auto
qed

text \<open>The references of a token are distinct, each where it first occurs: a token whose
  symbol repeats its id is announced under the id, then under the denom.\<close>

lemma set_order_set: "set (set_order xs) = set xs"
  by (induction xs rule: set_order.induct) auto

lemma set_order_distinct: "distinct (set_order xs)"
  by (induction xs rule: set_order.induct) (auto simp: set_order_set)

lemma token_refs_first:
  "token_refs \<lparr>b_token_id = ''7'', b_symbol = Some ''7'', b_denom = Some ''coin.zig1x.tok''\<rparr>
     = [''7'', ''coin.zig1x.tok'']"
  by (simp add: token_refs_def)

text \<open>
  C7 as stated fails when a run ends in the \<open>catch\<close>: the row whose base-token lookup
  rejects has been broadcast on \<open>trades.stream\<close> already, the watermark has not reached
  it, and the next run selects and broadcasts it again.
\<close>

theorem pump_rebroadcasts_after_rejection:
  "fst (pump_runs [(pumpEnvRejecting, [(1, sampleTrade)]), (pumpEnv, [(1, sampleTrade)])] None)
     = [(''trades.stream'', (1, sampleTrade)),
        (''trades.stream'', (1, sampleTrade)),
        (''trades.stream.pair:zig1pair'', (1, sampleTrade))]"
  by (simp add: pumpTrades_def select_rows_def selectable_def pumpEnv_def pumpEnvRejecting_def
      row_topics_def sampleTrade_def)

text \<open>
  C7, amended. A run in which neither \<open>getZigUsd\<close> nor the select rejects selects at most
  200 rows, in ascending order of \<open>created_at\<close>; each is a row of the table later than the
  watermark (or no older than ten minutes when there is none), of action \<open>swap\<close>,
  \<open>provide\<close> or \<open>withdraw\<close>, and joined to its pool; the run broadcasts only selected
  rows. If no base-token lookup rejects either, the run leaves the watermark at the
  \<open>created_at\<close> of the last row it broadcast, and no later run, rejecting or not,
  broadcasts a row that run broadcast.
\<close>

theorem pump_no_rebroadcast:
  assumes "\<not> getZigUsd_rejects env" "\<not> select_rejects env"
      "list_all (\<lambda>r. base_token_lookup env (fst r) \<noteq> Rejects) table"
    and "pumpTrades env table w0 = (sent, w1)"
    and "pump_runs runs w1 = (later, w2)"
  shows "length (select_rows env w0 table) \<le> 200 \<and>
     sorted (map (\<lambda>r. created_at (snd r)) (select_rows env w0 table)) \<and>
     (\<forall>r \<in> set (select_rows env w0 table).
        r \<in> set table \<and>
        (case w0 of Some w \<Rightarrow> w < created_at (snd r)
                  | None \<Rightarrow> now env - 600000 \<le> created_at (snd r)) \<and>
        action (snd r) \<in> {''swap'', ''provide'', ''withdraw''} \<and>
        pool_pair_contract env (pool_id (snd r)) \<noteq> None) \<and>
     snd ` set sent \<subseteq> set (select_rows env w0 table) \<and>
     (sent \<noteq> [] \<longrightarrow> w1 = Some (created_at (snd (snd (last sent))))) \<and>
     snd ` set sent \<inter> snd ` set later = {}"
proof -
  have rows: "pump_rows env (select_rows env w0 table) ([], w0) = (sent, w1)"
    using assms(1,2,4) by (simp add: pumpTrades_def)
  have selected: "snd ` set sent \<subseteq> set (select_rows env w0 table)"
    using pump_rows_sent [OF rows] by simp
  have disjoint: "snd ` set sent \<inter> snd ` set later = {}"
  proof (cases "sent = []")
    case True
    then show ?thesis by simp
  next
    case False
    from pumpTrades_clean [OF assms(1-4) False]
    obtain v where v: "w1 = Some v" "\<forall>b \<in> set sent. created_at (snd (snd b)) \<le> v" by auto
    from pump_runs_after_watermark [of runs v later w2] assms(5) v(1)
    have "\<forall>b \<in> set later. v < created_at (snd (snd b))" by simp
    with v(2) show ?thesis by fastforce
  qed
  have "list_all (\<lambda>r. base_token_lookup env (fst r) \<noteq> Rejects) (select_rows env w0 table)"
    using assms(3) select_rows_props [of env w0 table] by (auto simp: list_all_iff)
  then have mark: "sent \<noteq> [] \<longrightarrow> w1 = Some (created_at (snd (snd (last sent))))"
    using rows by (rule pump_rows_last)
  have "\<forall>r \<in> set (select_rows env w0 table). r \<in> set table \<and> selectable env w0 r"
    using select_rows_props [of env w0 table] by blast
  then have filtered: "\<forall>r \<in> set (select_rows env w0 table).
        r \<in> set table \<and>
        (case w0 of Some w \<Rightarrow> w < created_at (snd r)
                  | None \<Rightarrow> now env - 600000 \<le> created_at (snd r)) \<and>
        action (snd r) \<in> {''swap'', ''provide'', ''withdraw''} \<and>
        pool_pair_contract env (pool_id (snd r)) \<noteq> None"
    by (simp add: selectable_def)
  have "length (select_rows env w0 table) \<le> 200"
    and "sorted (map (\<lambda>r. created_at (snd r)) (select_rows env w0 table))"
    using select_rows_props [of env w0 table] by simp_all
  then show ?thesis using filtered selected disjoint mark by blast
qed

theorem pump_no_rebroadcast_witness:
  "pumpTrades pumpEnv [(1, sampleTrade)] None
     = ([(''trades.stream'', (1, sampleTrade)), (''trades.stream.pair:zig1pair'', (1, sampleTrade))],
        Some 1700000000000) \<and>
   pump_runs [(pumpEnv, [(1, sampleTrade), (2, laterTrade)])] (Some 1700000000000)
     = ([(''trades.stream'', (2, laterTrade)), (''trades.stream.pair:zig1pair'', (2, laterTrade))],
        Some 1700000001000) \<and>
   snd ` set (fst (pumpTrades pumpEnv [(1, sampleTrade)] None))
     \<inter> snd ` set (fst (pump_runs [(pumpEnv, [(1, sampleTrade), (2, laterTrade)])]
          (Some 1700000000000))) = {}"
proof -
  have first: "pumpTrades pumpEnv [(1, sampleTrade)] None
     = ([(''trades.stream'', (1, sampleTrade)), (''trades.stream.pair:zig1pair'', (1, sampleTrade))],
        Some 1700000000000)"
    by (simp add: pumpTrades_def select_rows_def selectable_def pumpEnv_def row_topics_def
        sampleTrade_def)
  have second: "pump_runs [(pumpEnv, [(1, sampleTrade), (2, laterTrade)])] (Some 1700000000000)
     = ([(''trades.stream'', (2, laterTrade)), (''trades.stream.pair:zig1pair'', (2, laterTrade))],
        Some 1700000001000)"
    by (simp add: pumpTrades_def select_rows_def selectable_def pumpEnv_def row_topics_def
        sampleTrade_def laterTrade_def)
  have clean: "list_all (\<lambda>r. base_token_lookup pumpEnv (fst r) \<noteq> Rejects) [(1, sampleTrade)]"
    by (simp add: pumpEnv_def)
  have "\<not> getZigUsd_rejects pumpEnv" and "\<not> select_rejects pumpEnv"
    by (simp_all add: pumpEnv_def)
  from pump_no_rebroadcast [OF this clean first second]
  show ?thesis using first second by simp
qed

section \<open>Properties of the fast-track reactor\<close>

lemma seed_not_native: "ctx_quote_denom ctx \<noteq> ''uzig'' \<Longrightarrow> seed env ctx = []"
  by (simp add: seed_def)

text \<open>Before the seed step the handler makes neither write.\<close>

lemma on_pair_created_not_native:
  assumes "loadPoolContext env = Returns (Some ctx)" "ctx_quote_denom ctx \<noteq> ''uzig''"
  shows "filter is_seed_write (on_pair_created env) = []"
  using assms
  by (simp add: on_pair_created_def Let_def seed_not_native split: outcome.splits)

lemma on_pair_created_native:
  assumes "loadPoolContext env = Returns (Some ctx)" "ctx_quote_denom ctx = ''uzig''"
    and "holdersCount env (ctx_base_token_id ctx) = Returns baseHC"
    and "\<not> (baseHC = 0 \<and> refreshHoldersOnce_rejects env (ctx_base_token_id ctx))"
  shows "filter is_seed_write (on_pair_created env) = filter is_seed_write (seed (seed_step env) ctx)"
  using assms by (auto simp: on_pair_created_def Let_def)

lemma seed_priced:
  assumes "ctx_quote_denom ctx = ''uzig''" "exponent_query env = Returns (Some (Some baseExp))"
    and "fetchPoolReserves env = Returns reserves"
    and "priceFromReserves_UZIGQuote env (ctx_base_denom ctx) baseExp reserves = Some (Finite p)"
    and "0 < p"
  shows "filter is_seed_write (seed env ctx) =
      UpsertPrice (ctx_base_token_id ctx) (ctx_pool_id ctx) p True
      # (if upsertPrice_rejects env then []
         else [UpsertOHLCV1m (ctx_pool_id ctx) (minuteFloor (localTZA env) (ctx_created_at ctx)) p 0 0])"
  using assms by (simp add: seed_def)

text \<open>Where the zone's offset is a whole number of minutes, the minute of the local time
  is the minute of the instant.\<close>

lemma minuteFloor_whole_minutes:
  assumes "60000 dvd tza"
  shows "minuteFloor tza d = (case d of None \<Rightarrow> 0 | Some t \<Rightarrow> (t div 60000) * 60000)"
proof -
  from assms obtain k where k: "tza = 60000 * k" by (auto simp: dvd_def)
  have "\<And>t :: int. (t + 60000 * k) div 60000 * 60000 - 60000 * k = t div 60000 * 60000"
    by simp
  then show ?thesis by (simp add: minuteFloor_def k split: option.splits)
qed

text \<open>
  C6 as stated fails in three ways for a native-quote pool whose exponent is populated and
  whose price is 4. When the \<open>upsertPrice\<close> call rejects, the step ends in its \<open>catch\<close> and
  no \<open>upsertOHLCV1m\<close> call is made. When the holder count query rejects, the handler ends
  in the outer \<open>catch\<close> before the seed step and makes neither call. And in a process
  whose zone is 19 minutes 32 seconds ahead of UTC, the bucket of a pool created at
  1700000096789 is 1700000068000, which is not the UTC minute 1700000040000.
\<close>

theorem on_pair_created_seed_cut_short:
  "ctx_quote_denom nativeCtx = ''uzig'' \<and>
   exponent_query seedEnv = Returns (Some (Some 6)) \<and>
   usable_price (priceFromReserves_UZIGQuote seedEnv ''coin.zig1x.tok'' 6 ()) = Some 4 \<and>
   on_pair_created (fasttrackEnv\<lparr>seed_step := seedEnv\<lparr>upsertPrice_rejects := True\<rparr>\<rparr>)
     = [RefreshMetaOnce ''coin.zig1x.tok'', RefreshMetaOnce ''uzig'',
        RefreshHoldersOnce 3 ''coin.zig1x.tok'', ScanTokenOnce 3 ''coin.zig1x.tok'',
        RefreshPoolMatrixOnce 1, RefreshTokenMatrixOnce 3,
        UpsertPrice 3 1 4 True, Warn ''[fasttrack/init-ohlcv]''] \<and>
   on_pair_created (fasttrackEnv\<lparr>holdersCount := (\<lambda>i. Rejects)\<rparr>)
     = [RefreshMetaOnce ''coin.zig1x.tok'', RefreshMetaOnce ''uzig'',
        RefreshHoldersOnce 3 ''coin.zig1x.tok'', Warn ''[fasttrack]''] \<and>
   filter is_seed_write (on_pair_created (fasttrackEnv\<lparr>seed_step := seedEnv\<lparr>localTZA := 1172000\<rparr>\<rparr>))
     = [UpsertPrice 3 1 4 True, UpsertOHLCV1m 1 1700000068000 4 0 0] \<and>
   (1700000096789 div 60000) * 60000 = (1700000040000 :: int)"
  by (simp add: on_pair_created_def seed_def seedEnv_def nativeCtx_def fasttrackEnv_def
      minuteFloor_def Let_def)

text \<open>
  C6, amended. For a payload whose pool's quote denom is not \<open>uzig\<close> the handler makes
  neither write. For one whose pool's quote denom is \<open>uzig\<close>, when the holder count of the
  base token is read and a retried holders refresh does not reject, the exponent is
  populated, the reserves are fetched and the price is finite and positive: the handler
  calls \<open>upsertPrice\<close> once, with \<open>is_pair_native = true\<close>, and, if that call does not
  reject, \<open>upsertOHLCV1m\<close> once, with \<open>vol_zig = 0\<close> and \<open>trade_inc = 0\<close>, at the minute
  of \<open>created_at\<close> (of the epoch when it is \<open>NULL\<close>) in the local time of the process;
  these are all its writes of the two kinds. The local minute is the UTC minute where
  the zone's offset is a whole number of minutes.
\<close>

theorem on_pair_created_seed:
  "(loadPoolContext env = Returns (Some ctx) \<and> ctx_quote_denom ctx \<noteq> ''uzig'' \<longrightarrow>
      filter is_seed_write (on_pair_created env) = []) \<and>
   (loadPoolContext env = Returns (Some ctx) \<and> ctx_quote_denom ctx = ''uzig'' \<and>
    holdersCount env (ctx_base_token_id ctx) = Returns baseHC \<and>
    \<not> (baseHC = 0 \<and> refreshHoldersOnce_rejects env (ctx_base_token_id ctx)) \<and>
    exponent_query (seed_step env) = Returns (Some (Some baseExp)) \<and>
    fetchPoolReserves (seed_step env) = Returns reserves \<and>
    priceFromReserves_UZIGQuote (seed_step env) (ctx_base_denom ctx) baseExp reserves
      = Some (Finite p) \<and>
    0 < p \<longrightarrow>
      filter is_seed_write (on_pair_created env) =
        UpsertPrice (ctx_base_token_id ctx) (ctx_pool_id ctx) p True
        # (if upsertPrice_rejects (seed_step env) then []
           else [UpsertOHLCV1m (ctx_pool_id ctx)
                   (minuteFloor (localTZA (seed_step env)) (ctx_created_at ctx)) p 0 0])) \<and>
   (60000 dvd tza \<longrightarrow>
      minuteFloor tza d = (case d of None \<Rightarrow> 0 | Some t \<Rightarrow> (t div 60000) * 60000))"
  using on_pair_created_not_native [of env ctx] on_pair_created_native [of env ctx baseHC]
    seed_priced [of ctx "seed_step env" baseExp reserves p] minuteFloor_whole_minutes [of tza d]
  by simp

theorem on_pair_created_seed_witness:
  "loadPoolContext fasttrackEnv = Returns (Some nativeCtx) \<and> ctx_quote_denom nativeCtx = ''uzig'' \<and>
   filter is_seed_write (on_pair_created fasttrackEnv)
     = [UpsertPrice 3 1 4 True, UpsertOHLCV1m 1 1700000040000 4 0 0] \<and>
   filter is_seed_write (on_pair_created (fasttrackEnv\<lparr>seed_step := seedEnv\<lparr>upsertPrice_rejects := True\<rparr>\<rparr>))
     = [UpsertPrice 3 1 4 True] \<and>
   filter is_seed_write
     (on_pair_created (fasttrackEnv\<lparr>loadPoolContext :=
        Returns (Some (nativeCtx\<lparr>ctx_quote_denom := ''ibc/27394''\<rparr>))\<rparr>)) = []"
proof -
  have floor: "minuteFloor 19800000 (Some 1700000096789) = 1700000040000"
    using on_pair_created_seed [where tza = 19800000 and d = "Some 1700000096789"
        and env = fasttrackEnv and ctx = nativeCtx]
    by simp
  have native: "filter is_seed_write (on_pair_created fasttrackEnv)
      = [UpsertPrice 3 1 4 True, UpsertOHLCV1m 1 1700000040000 4 0 0]"
    using on_pair_created_seed [where env = fasttrackEnv and ctx = nativeCtx and baseHC = 5
        and baseExp = 6 and reserves = "()" and p = 4] floor
    by (simp add: fasttrackEnv_def seedEnv_def nativeCtx_def)
  have rejecting: "filter is_seed_write
      (on_pair_created (fasttrackEnv\<lparr>seed_step := seedEnv\<lparr>upsertPrice_rejects := True\<rparr>\<rparr>))
      = [UpsertPrice 3 1 4 True]"
    using on_pair_created_seed [where env = "fasttrackEnv\<lparr>seed_step := seedEnv\<lparr>upsertPrice_rejects := True\<rparr>\<rparr>"
        and ctx = nativeCtx and baseHC = 5 and baseExp = 6 and reserves = "()" and p = 4]
    by (simp add: fasttrackEnv_def seedEnv_def nativeCtx_def)
  have other: "filter is_seed_write
     (on_pair_created (fasttrackEnv\<lparr>loadPoolContext :=
        Returns (Some (nativeCtx\<lparr>ctx_quote_denom := ''ibc/27394''\<rparr>))\<rparr>)) = []"
    using on_pair_created_seed [where env = "fasttrackEnv\<lparr>loadPoolContext :=
        Returns (Some (nativeCtx\<lparr>ctx_quote_denom := ''ibc/27394''\<rparr>))\<rparr>"
        and ctx = "nativeCtx\<lparr>ctx_quote_denom := ''ibc/27394''\<rparr>"]
    by (simp add: fasttrackEnv_def)
  show ?thesis using native rejecting other by (simp add: fasttrackEnv_def nativeCtx_def)
qed

section \<open>Properties of the pool registry\<close>

lemma resolveDex_pools [simp]: "pools (snd (resolveDex f s)) = pools s"
  by (simp add: resolveDex_def Let_def)

lemma resolveDex_chains [simp]: "chain_catalogue (snd (resolveDex f s)) = chain_catalogue s"
  by (simp add: resolveDex_def Let_def)

lemma resolveDex_index_state [simp]: "index_state (snd (resolveDex f s)) = index_state s"
  by (simp add: resolveDex_def Let_def)

lemma upsertTokenMinimal_pools [simp]: "pools (snd (upsertTokenMinimal d s)) = pools s"
  by (simp add: upsertTokenMinimal_def split: option.splits)

lemma upsertTokenMinimal_index_state [simp]: "index_state (snd (upsertTokenMinimal d s)) = index_state s"
  by (simp add: upsertTokenMinimal_def split: option.splits)

lemma upsertTokenMinimal_chains [simp]:
  "chain_catalogue (snd (upsertTokenMinimal d s)) = chain_catalogue s"
  by (simp add: upsertTokenMinimal_def split: option.splits)

lemma find_map_update:
  assumes "\<And>r. P (f r) = P r"
  shows "find P (map (\<lambda>r. if P r then f r else r) xs) = map_option f (find P xs)"
  using assms by (induction xs) auto

lemma filter_map_update:
  assumes "\<And>r. P (f r) = P r"
  shows "filter (\<lambda>r. \<not> P r) (map (\<lambda>r. if P r then f r else r) xs) = filter (\<lambda>r. \<not> P r) xs"
  using assms by (induction xs) auto

lemma pool_conflict_update_key [simp]:
  "p_pair_contract (pool_conflict_update b q t d c r) = p_pair_contract r"
  by (simp add: pool_conflict_update_def)

text \<open>The pools table after \<open>upsertPool\<close> on a stored pair contract: unchanged when the
  call rejects, the stored row updated in place when it returns.\<close>

lemma upsertPool_stored:
  assumes old: "find (\<lambda>r. p_pair_contract r = pairContract a) (pools s) = Some old"
  shows "(\<exists>err. fst (upsertPool a s) = Inl err \<and> pools (snd (upsertPool a s)) = pools s) \<or>
     (\<exists>b q d c. fst (upsertPool a s) = Inr (p_pool_id old) \<and>
        fst (resolveDex (factoryContract a) s) = Inr (d, c) \<and>
        b = fst (upsertTokenMinimal (baseDenom a) (snd (resolveDex (factoryContract a) s))) \<and>
        q = fst (upsertTokenMinimal (quoteDenom a)
              (snd (upsertTokenMinimal (baseDenom a) (snd (resolveDex (factoryContract a) s))))) \<and>
        pools (snd (upsertPool a s)) =
          map (\<lambda>r. if p_pair_contract r = pairContract a
                    then pool_conflict_update b q (pairType a) d c r else r) (pools s))"
proof (cases "resolveDex (factoryContract a) s")
  case (Pair res s1)
  have s1: "pools s1 = pools s"
    using resolveDex_pools [of "factoryContract a" s] Pair by simp
  show ?thesis
  proof (cases res)
    case (Inl err)
    with Pair s1 show ?thesis by (simp add: upsertPool_def)
  next
    case (Inr dc)
    obtain d c where dc: "dc = (d, c)" by (cases dc)
    obtain b s2 where b: "upsertTokenMinimal (baseDenom a) s1 = (b, s2)"
      by (cases "upsertTokenMinimal (baseDenom a) s1")
    obtain q s3 where q: "upsertTokenMinimal (quoteDenom a) s2 = (q, s3)"
      by (cases "upsertTokenMinimal (quoteDenom a) s2")
    have s2: "pools s2 = pools s1"
      using upsertTokenMinimal_pools [of "baseDenom a" s1] b by simp
    have s3: "pools s3 = pools s2"
      using upsertTokenMinimal_pools [of "quoteDenom a" s2] q by simp
    show ?thesis
      using Pair Inr dc b q s1 s2 s3 old
      by (simp add: upsertPool_def Let_def)
  qed
qed

text \<open>
  C10. When \<open>upsertPool\<close> is called for a pair contract that is stored, the stored row
  keeps its \<open>is_uzig_quote\<close>, \<open>created_at\<close>, \<open>created_height\<close>, \<open>created_tx_hash\<close> and
  \<open>signer\<close> (and its id and the columns the statement does not name) whatever the call
  supplies, and every other row is as before; when the call returns, it returns the stored
  id and the row's \<open>base_token_id\<close>, \<open>quote_token_id\<close>, \<open>pair_type\<close>, \<open>dex_id\<close> and
  \<open>chain_id\<close> are the proposed ones.
\<close>

theorem upsertPool_conflict_frame:
  assumes "find (\<lambda>r. p_pair_contract r = pairContract a) (pools s) = Some old"
  shows "\<exists>new. find (\<lambda>r. p_pair_contract r = pairContract a) (pools (snd (upsertPool a s))) = Some new \<and>
     p_is_uzig_quote new = p_is_uzig_quote old \<and>
     p_created_at new = p_created_at old \<and>
     p_created_height new = p_created_height old \<and>
     p_created_tx_hash new = p_created_tx_hash old \<and>
     p_signer new = p_signer old \<and>
     p_pool_id new = p_pool_id old \<and>
     p_pair_contract new = p_pair_contract old \<and>
     p_lp_token_denom new = p_lp_token_denom old \<and>
     p_factory_contract new = p_factory_contract old \<and>
     p_router_contract new = p_router_contract old \<and>
     filter (\<lambda>r. p_pair_contract r \<noteq> pairContract a) (pools (snd (upsertPool a s)))
       = filter (\<lambda>r. p_pair_contract r \<noteq> pairContract a) (pools s) \<and>
     (\<forall>pid. fst (upsertPool a s) = Inr pid \<longrightarrow>
        pid = p_pool_id old \<and>
        p_pair_type new = pairType a \<and>
        p_base_token_id new
          = fst (upsertTokenMinimal (baseDenom a) (snd (resolveDex (factoryContract a) s))) \<and>
        p_quote_token_id new
          = fst (upsertTokenMinimal (quoteDenom a)
              (snd (upsertTokenMinimal (baseDenom a) (snd (resolveDex (factoryContract a) s))))) \<and>
        fst (resolveDex (factoryContract a) s) = Inr (p_dex_id new, p_chain_id new))"
  using upsertPool_stored [OF assms]
proof (elim disjE exE conjE)
  fix err
  assume "fst (upsertPool a s) = Inl err" "pools (snd (upsertPool a s)) = pools s"
  then show ?thesis using assms by simp
next
  fix b q d c
  assume res: "fst (upsertPool a s) = Inr (p_pool_id old)"
    and dex: "fst (resolveDex (factoryContract a) s) = Inr (d, c)"
    and b: "b = fst (upsertTokenMinimal (baseDenom a) (snd (resolveDex (factoryContract a) s)))"
    and q: "q = fst (upsertTokenMinimal (quoteDenom a)
              (snd (upsertTokenMinimal (baseDenom a) (snd (resolveDex (factoryContract a) s)))))"
    and tbl: "pools (snd (upsertPool a s)) =
          map (\<lambda>r. if p_pair_contract r = pairContract a
                    then pool_conflict_update b q (pairType a) d c r else r) (pools s)"
  have found: "find (\<lambda>r. p_pair_contract r = pairContract a) (pools (snd (upsertPool a s)))
      = Some (pool_conflict_update b q (pairType a) d c old)"
    unfolding tbl
    using find_map_update [of "\<lambda>r. p_pair_contract r = pairContract a"
        "pool_conflict_update b q (pairType a) d c" "pools s"] assms
    by simp
  have rest: "filter (\<lambda>r. p_pair_contract r \<noteq> pairContract a) (pools (snd (upsertPool a s)))
       = filter (\<lambda>r. p_pair_contract r \<noteq> pairContract a) (pools s)"
    unfolding tbl
    using filter_map_update [of "\<lambda>r. p_pair_contract r = pairContract a"
        "pool_conflict_update b q (pairType a) d c" "pools s"]
    by simp
  show ?thesis
    using found rest res dex b q by (simp add: pool_conflict_update_def)
qed

theorem upsertPool_conflict_frame_witness:
  "find (\<lambda>r. p_pair_contract r = pairContract sampleUpsert) (pools sampleDb) = Some (hd (pools sampleDb)) \<and>
   quoteDenom sampleUpsert = ''uzig'' \<and> createdHeight sampleUpsert = 100 \<and>
   (\<exists>new. find (\<lambda>r. p_pair_contract r = ''zig1pair'') (pools (snd (upsertPool sampleUpsert sampleDb)))
        = Some new \<and>
      p_is_uzig_quote new = False \<and> p_created_at new = Some 1690000000000 \<and>
      p_created_height new = Some 90 \<and> p_created_tx_hash new = Some ''AA00'' \<and>
      p_signer new = Some ''zig1alice'' \<and>
      p_pair_type new = ''concentrated'' \<and> p_base_token_id new = 1 \<and> p_quote_token_id new = 3 \<and>
      p_dex_id new = Some 2 \<and> p_chain_id new = Some 1)"
proof -
  have stored: "find (\<lambda>r. p_pair_contract r = pairContract sampleUpsert) (pools sampleDb)
      = Some (hd (pools sampleDb))"
    by (simp add: sampleUpsert_def sampleDb_def)
  have run: "fst (upsertPool sampleUpsert sampleDb) = Inr 1"
    by (simp add: upsertPool_def resolveDex_def upsertTokenMinimal_def id_or_null_def
        sampleUpsert_def sampleDb_def Let_def)
  have dex: "fst (resolveDex (factoryContract sampleUpsert) sampleDb) = Inr (Some 2, Some 1)"
    by (simp add: resolveDex_def id_or_null_def sampleUpsert_def sampleDb_def Let_def)
  have base: "fst (upsertTokenMinimal (baseDenom sampleUpsert)
      (snd (resolveDex (factoryContract sampleUpsert) sampleDb))) = 1"
    by (simp add: resolveDex_def upsertTokenMinimal_def id_or_null_def
        sampleUpsert_def sampleDb_def Let_def)
  have quote: "fst (upsertTokenMinimal (quoteDenom sampleUpsert)
      (snd (upsertTokenMinimal (baseDenom sampleUpsert)
        (snd (resolveDex (factoryContract sampleUpsert) sampleDb))))) = 3"
    by (simp add: resolveDex_def upsertTokenMinimal_def id_or_null_def
        sampleUpsert_def sampleDb_def Let_def)
  have old: "hd (pools sampleDb) = \<lparr> p_pool_id = 1, p_pair_contract = ''zig1pair'', p_base_token_id = 1,
        p_quote_token_id = 2, p_lp_token_denom = None, p_pair_type = ''xyk'',
        p_is_uzig_quote = False, p_factory_contract = None, p_router_contract = None,
        p_created_at = Some 1690000000000, p_created_height = Some 90,
        p_created_tx_hash = Some ''AA00'', p_signer = Some ''zig1alice'',
        p_dex_id = Some 1, p_chain_id = Some 1 \<rparr>"
    by (simp add: sampleDb_def)
  have args: "pairContract sampleUpsert = ''zig1pair''" "pairType sampleUpsert = ''concentrated''"
    "quoteDenom sampleUpsert = ''uzig''" "createdHeight sampleUpsert = 100"
    by (simp_all add: sampleUpsert_def)
  from upsertPool_conflict_frame [OF stored]
  obtain new where new:
    "find (\<lambda>r. p_pair_contract r = pairContract sampleUpsert)
        (pools (snd (upsertPool sampleUpsert sampleDb))) = Some new"
    "p_is_uzig_quote new = p_is_uzig_quote (hd (pools sampleDb))"
    "p_created_at new = p_created_at (hd (pools sampleDb))"
    "p_created_height new = p_created_height (hd (pools sampleDb))"
    "p_created_tx_hash new = p_created_tx_hash (hd (pools sampleDb))"
    "p_signer new = p_signer (hd (pools sampleDb))"
    "\<forall>pid. fst (upsertPool sampleUpsert sampleDb) = Inr pid \<longrightarrow>
        pid = p_pool_id (hd (pools sampleDb)) \<and>
        p_pair_type new = pairType sampleUpsert \<and>
        p_base_token_id new
          = fst (upsertTokenMinimal (baseDenom sampleUpsert)
              (snd (resolveDex (factoryContract sampleUpsert) sampleDb))) \<and>
        p_quote_token_id new
          = fst (upsertTokenMinimal (quoteDenom sampleUpsert)
              (snd (upsertTokenMinimal (baseDenom sampleUpsert)
                (snd (resolveDex (factoryContract sampleUpsert) sampleDb))))) \<and>
        fst (resolveDex (factoryContract sampleUpsert) sampleDb) = Inr (p_dex_id new, p_chain_id new)"
    by blast
  from new(7) run have upd: "p_pair_type new = ''concentrated''" "p_base_token_id new = 1"
      "p_quote_token_id new = 3" "p_dex_id new = Some 2" "p_chain_id new = Some 1"
    using dex base quote args by auto
  show ?thesis
    using stored new(1-6) upd args by (simp add: old)
qed



section \<open>Properties of the block processor\<close>

subsection \<open>The height watermark\<close>

lemma prefetch_add_st [simp]: "st (prefetch_add pc sc) = st sc"
  by (simp add: prefetch_add_def)

lemma upsertPool_index_state [simp]: "index_state (snd (upsertPool a d)) = index_state d"
proof (cases "resolveDex (factoryContract a) d")
  case (Pair r d1)
  have d1: "index_state d1 = index_state d"
    using resolveDex_index_state [of "factoryContract a" d] Pair by simp
  show ?thesis
  proof (cases r)
    case (Inl err)
    with Pair d1 show ?thesis by (simp add: upsertPool_def)
  next
    case (Inr dc)
    obtain dx c where dc: "dc = (dx, c)" by (cases dc)
    obtain b d2 where b: "upsertTokenMinimal (baseDenom a) d1 = (b, d2)"
      by (cases "upsertTokenMinimal (baseDenom a) d1")
    obtain q d3 where q: "upsertTokenMinimal (quoteDenom a) d2 = (q, d3)"
      by (cases "upsertTokenMinimal (quoteDenom a) d2")
    have "index_state d2 = index_state d1"
      using upsertTokenMinimal_index_state [of "baseDenom a" d1] b by simp
    moreover have "index_state d3 = index_state d2"
      using upsertTokenMinimal_index_state [of "quoteDenom a" d2] q by simp
    ultimately show ?thesis
      using Pair Inr dc b q d1 by (simp add: upsertPool_def Let_def split: option.splits)
  qed
qed

lemma getPoolCached_watermark [simp]: "watermark (snd (getPoolCached pc s)) = watermark s"
  by (simp add: getPoolCached_def watermark_def split: option.splits)

lemma run_pool_task_watermark: "watermark (snd (run_pool_task a s)) = watermark s"
proof (cases "upsertPool a (database s)")
  case (Pair r d)
  have "index_state d = index_state (database s)"
    using upsertPool_index_state [of a "database s"] Pair by simp
  then show ?thesis
    using Pair by (simp add: run_pool_task_def watermark_def split: sum.splits option.splits)
qed

lemma run_swap_task_watermark: "watermark (snd (run_swap_task env h ts t s)) = watermark s"
proof (cases "getPoolCached (sw_pairContract t) s")
  case (Pair p s1)
  have "watermark s1 = watermark s"
    using getPoolCached_watermark [of "sw_pairContract t" s] Pair by simp
  then show ?thesis
    using Pair by (simp add: run_swap_task_def watermark_def split: option.splits)
qed

lemma run_liq_task_watermark: "watermark (snd (run_liq_task env h ts t s)) = watermark s"
proof (cases "getPoolCached (lq_pairContract t) s")
  case (Pair p s1)
  have "watermark s1 = watermark s"
    using getPoolCached_watermark [of "lq_pairContract t" s] Pair by simp
  then show ?thesis
    using Pair by (simp add: run_liq_task_def watermark_def split: option.splits)
qed

lemma run_prefetch_task_watermark: "watermark (snd (run_prefetch_task pc s)) = watermark s"
  by (simp add: run_prefetch_task_def watermark_def split: option.splits)

lemma run_task_watermark: "watermark (snd (run_task env h ts t s)) = watermark s"
  by (cases t)
    (simp_all add: run_pool_task_watermark run_swap_task_watermark run_liq_task_watermark
      run_prefetch_task_watermark, simp add: watermark_def)

lemma track_watermark: "watermark (track env h ts l s it) = watermark s"
proof -
  obtain threw s1 where r: "run_task env h ts (snd it) (s\<lparr>trace := trace s @ [(l, fst it)]\<rparr>) = (threw, s1)"
    by (cases "run_task env h ts (snd it) (s\<lparr>trace := trace s @ [(l, fst it)]\<rparr>)")
  have "watermark s1 = watermark (s\<lparr>trace := trace s @ [(l, fst it)]\<rparr>)"
    using run_task_watermark [of env h ts "snd it" "s\<lparr>trace := trace s @ [(l, fst it)]\<rparr>"] r by simp
  then show ?thesis using r by (simp add: track_def watermark_def)
qed

lemma foldl_track_watermark: "watermark (foldl (track env h ts l) s its) = watermark s"
  by (induction its arbitrary: s) (simp_all add: track_watermark)

lemma runWithConcurrency_watermark:
  "watermark (runWithConcurrency env h ts tasks0 limit l s) = watermark s"
  by (simp add: runWithConcurrency_def foldl_track_watermark)

lemma rememberMeta_watermark: "watermark (st (rememberMeta d sc)) = watermark (st sc)"
  by (simp add: rememberMeta_def watermark_def)

lemma scan_create_pair_watermark:
  "watermark (st (scan_create_pair env h ts txh wasms insts ms sc cp)) = watermark (st sc)"
  by (simp add: scan_create_pair_def Let_def rememberMeta_watermark split: prod.splits)
    (simp add: watermark_def)

lemma scan_swap_watermark: "watermark (st (scan_swap env txh ex ms sc it)) = watermark (st sc)"
  by (simp add: scan_swap_def Let_def)

lemma scan_liq_watermark: "watermark (st (scan_liq env txh ms sc it)) = watermark (st sc)"
  by (simp add: scan_liq_def Let_def)

lemma foldl_watermark:
  assumes "\<And>sc x. watermark (st (f sc x)) = watermark (st sc)"
  shows "watermark (st (foldl f sc xs)) = watermark (st sc)"
  by (induction xs arbitrary: sc) (simp_all add: assms)

lemma scan_events_watermark: "watermark (st (scan_events env h ts sc it)) = watermark (st sc)"
proof -
  let ?wasms = "byType (fst it) ''wasm''"
  let ?ms = "buildMsgSenderMap env (byType (fst it) ''message'')"
  let ?sc1 = "foldl (scan_create_pair env h ts (snd it) ?wasms (byType (fst it) ''instantiate'') ?ms) sc
                  (wasmByAction ?wasms ''create_pair'')"
  let ?swaps = "wasmByAction ?wasms ''swap''"
  let ?sc2 = "foldl (scan_swap env (snd it) (byType (fst it) ''execute'') ?ms) ?sc1
                  (zip [0..<length ?swaps] ?swaps)"
  let ?liqs = "wasmByAction ?wasms ''provide_liquidity'' @ wasmByAction ?wasms ''withdraw_liquidity''"
  let ?sc3 = "foldl (scan_liq env (snd it) ?ms) ?sc2 (zip [0..<length ?liqs] ?liqs)"
  have "watermark (st ?sc1) = watermark (st sc)"
    by (rule foldl_watermark) (rule scan_create_pair_watermark)
  moreover have "watermark (st ?sc2) = watermark (st ?sc1)"
    by (rule foldl_watermark) (rule scan_swap_watermark)
  moreover have "watermark (st ?sc3) = watermark (st ?sc2)"
    by (rule foldl_watermark) (rule scan_liq_watermark)
  ultimately have "watermark (st ?sc3) = watermark (st sc)" by simp
  then show ?thesis
    by (simp add: scan_events_def Let_def)
qed

lemma scan_tx_watermark: "watermark (st (scan_tx env h ts sc it)) = watermark (st sc)"
  by (simp add: scan_tx_def Let_def runWithConcurrency_watermark scan_events_watermark)

lemma run_phases_watermark: "watermark (run_phases env h ts sc) = watermark (st sc)"
  by (simp add: run_phases_def Let_def runWithConcurrency_watermark)

lemma processHeight_watermark: "watermark (snd (processHeight env h rpc s)) = watermark s"
  by (simp add: processHeight_def run_phases_watermark foldl_watermark scan_tx_watermark
      split: outcome.splits option.splits)

subsection \<open>The scan of the sample block\<close>

lemma digits_1000000: "digitsOrNull (Some ''1000000'') = Some 1000000"
  by (simp add: digitsOrNull_def)
lemma digits_250000: "digitsOrNull (Some ''250000'') = Some 250000"
  by (simp add: digitsOrNull_def)
lemma digits_5000000: "digitsOrNull (Some ''5000000'') = Some 5000000"
  by (simp add: digitsOrNull_def)
lemma digits_1250000: "digitsOrNull (Some ''1250000'') = Some 1250000"
  by (simp add: digitsOrNull_def)
lemma digits_None: "digitsOrNull None = None"
  by (simp add: digitsOrNull_def)
lemma trim_factory: "js_trim ''zig1factory'' = ''zig1factory''"
  by (simp add: js_trim_def is_space_def)

lemma sample_wasms: "byType [createPairEvent, registerEvent, swapEvent] ''wasm'' = [createPairEvent, registerEvent, swapEvent]"
  by (simp add: byType_def createPairEvent_def registerEvent_def swapEvent_def)

lemma sample_by_action:
  "wasmByAction [createPairEvent, registerEvent, swapEvent] ''create_pair'' = [createPairEvent]"
  "wasmByAction [createPairEvent, registerEvent, swapEvent] ''swap'' = [swapEvent]"
  "wasmByAction [createPairEvent, registerEvent, swapEvent] ''provide_liquidity'' = []"
  "wasmByAction [createPairEvent, registerEvent, swapEvent] ''withdraw_liquidity'' = []"
  "byType [createPairEvent, registerEvent, swapEvent] ''instantiate'' = []"
  "byType [createPairEvent, registerEvent, swapEvent] ''execute'' = []"
  "byType [createPairEvent, registerEvent, swapEvent] ''message'' = []"
  by (simp_all add: wasmByAction_def byType_def createPairEvent_def registerEvent_def swapEvent_def)

lemma sample_create_pair:
  "scan_create_pair (bpEnv\<lparr>MAX_PENDING_TASKS := n\<rparr>) 100 1700000000000 (Some ''AB12'')
      [createPairEvent, registerEvent, swapEvent] [] [0 \<mapsto> ''zig1alice'']
      \<lparr> poolTasks = [], tasks = [], lowPrioTasks = [], prefetchSet = [], st = sampleState \<rparr>
      createPairEvent
   = \<lparr> poolTasks = [PoolTask scannedPool], tasks = [],
       lowPrioTasks = [MetaTask ''coin.zig1x.tok'', MetaTask ''uzig''], prefetchSet = [],
       st = sampleState\<lparr>metaFetched := {''uzig'', ''coin.zig1x.tok''}\<rparr> \<rparr>"
  by (simp add: scan_create_pair_def createPairEvent_def registerEvent_def swapEvent_def
      js_or_def truthy_def trim_factory bpEnv_def rememberMeta_def sampleState_def scannedPool_def
      Let_def)

lemma sample_swap:
  "scan_swap (bpEnv\<lparr>MAX_PENDING_TASKS := n\<rparr>) (Some ''AB12'') [] [0 \<mapsto> ''zig1alice'']
      \<lparr> poolTasks = ps, tasks = [], lowPrioTasks = ls, prefetchSet = [], st = s \<rparr>
      (0, swapEvent)
   = \<lparr> poolTasks = ps, tasks = [SwapTask scannedSwap], lowPrioTasks = ls,
       prefetchSet = [''zig1newpair''], st = s \<rparr>"
  by (simp add: scan_swap_def swapEvent_def js_or_def truthy_def bpEnv_def prefetch_add_def
      fill_legs_def msg_index_of_def digits_1000000 digits_250000 digits_5000000 digits_1250000
      digits_None scannedSwap_def Let_def)

lemma sample_scan:
  "scan_events (bpEnv\<lparr>MAX_PENDING_TASKS := n\<rparr>) 100 1700000000000
      \<lparr> poolTasks = [], tasks = [], lowPrioTasks = [], prefetchSet = [], st = sampleState \<rparr>
      ([createPairEvent, registerEvent, swapEvent], Some ''AB12'')
   = \<lparr> poolTasks = [PoolTask scannedPool], tasks = [SwapTask scannedSwap],
       lowPrioTasks = [MetaTask ''coin.zig1x.tok'', MetaTask ''uzig''],
       prefetchSet = [''zig1newpair''],
       st = sampleState\<lparr>metaFetched := {''uzig'', ''coin.zig1x.tok''}\<rparr> \<rparr>"
proof -
  have senders: "buildMsgSenderMap bpEnv [] = [0 \<mapsto> ''zig1alice'']"
    by (simp add: bpEnv_def)
  show ?thesis
    by (simp add: scan_events_def sample_wasms sample_by_action senders sample_create_pair
        sample_swap Let_def)
qed

subsection \<open>The order of the phases\<close>

lemma getPoolCached_trace [simp]: "trace (snd (getPoolCached pc s)) = trace s"
  by (simp add: getPoolCached_def split: option.splits)

lemma run_task_trace: "trace (snd (run_task env h ts t s)) = trace s"
proof (cases t)
  case (PoolTask a)
  then show ?thesis
    by (simp add: run_pool_task_def split: prod.splits sum.splits option.splits)
next
  case (SwapTask x)
  obtain p s1 where g: "getPoolCached (sw_pairContract x) s = (p, s1)"
    by (cases "getPoolCached (sw_pairContract x) s")
  have "trace s1 = trace s" using getPoolCached_trace [of "sw_pairContract x" s] g by simp
  with SwapTask g show ?thesis by (simp add: run_swap_task_def split: option.splits)
next
  case (LiqTask x)
  obtain p s1 where g: "getPoolCached (lq_pairContract x) s = (p, s1)"
    by (cases "getPoolCached (lq_pairContract x) s")
  have "trace s1 = trace s" using getPoolCached_trace [of "lq_pairContract x" s] g by simp
  with LiqTask g show ?thesis by (simp add: run_liq_task_def split: option.splits)
next
  case (PrefetchTask pc)
  then show ?thesis by (simp add: run_prefetch_task_def split: option.splits)
next
  case (MetaTask d)
  then show ?thesis by simp
qed

lemma track_trace: "trace (track env h ts l s it) = trace s @ [(l, fst it)]"
proof -
  obtain threw s1 where r: "run_task env h ts (snd it) (s\<lparr>trace := trace s @ [(l, fst it)]\<rparr>) = (threw, s1)"
    by (cases "run_task env h ts (snd it) (s\<lparr>trace := trace s @ [(l, fst it)]\<rparr>)")
  have "trace s1 = trace (s\<lparr>trace := trace s @ [(l, fst it)]\<rparr>)"
    using run_task_trace [of env h ts "snd it" "s\<lparr>trace := trace s @ [(l, fst it)]\<rparr>"] r by simp
  then show ?thesis using r by (simp add: track_def)
qed

lemma foldl_track_trace:
  "trace (foldl (track env h ts l) s its) = trace s @ map (\<lambda>it. (l, fst it)) its"
  by (induction its arbitrary: s) (simp_all add: track_trace)

text \<open>With at least one worker, a call of the scheduler runs every task of its list, in
  one stretch of the trace, under the call's label.\<close>

lemma runWithConcurrency_trace:
  "trace (runWithConcurrency env h ts ts0 limit l s) =
     trace s @ (if limit = 0 then [] else map (\<lambda>i. (l, i)) [0..<length ts0])"
proof (cases "limit = 0 \<or> ts0 = []")
  case True
  then show ?thesis by (auto simp add: runWithConcurrency_def)
next
  case False
  then have workers: "min limit (length ts0) \<noteq> 0" by simp
  have "map (\<lambda>it. (l, fst it)) (zip [0..<length ts0] ts0)
      = map (\<lambda>i. (l, i)) (map fst (zip [0..<length ts0] ts0))"
    by (simp only: map_map comp_def)
  also have "map fst (zip [0..<length ts0] ts0) = [0..<length ts0]"
    by simp
  finally show ?thesis using False workers by (simp add: runWithConcurrency_def foldl_track_trace)
qed

lemma rememberMeta_trace [simp]: "trace (st (rememberMeta d sc)) = trace (st sc)"
  by (simp add: rememberMeta_def)

lemma scan_create_pair_trace:
  "trace (st (scan_create_pair env h ts txh wasms insts ms sc cp)) = trace (st sc)"
proof -
  obtain base quote where nq: "normalizePair env (m cp ''pair'') = (base, quote)"
    by (cases "normalizePair env (m cp ''pair'')")
  show ?thesis
    unfolding scan_create_pair_def Let_def nq by simp
qed

lemma scan_swap_trace: "trace (st (scan_swap env txh ex ms sc it)) = trace (st sc)"
  by (simp add: scan_swap_def Let_def)

lemma scan_liq_trace: "trace (st (scan_liq env txh ms sc it)) = trace (st sc)"
  by (simp add: scan_liq_def Let_def)

lemma foldl_trace:
  assumes "\<And>sc x. trace (st (f sc x)) = trace (st sc)"
  shows "trace (st (foldl f sc xs)) = trace (st sc)"
  by (induction xs arbitrary: sc) (simp_all add: assms)

lemma scan_events_trace: "trace (st (scan_events env h ts sc it)) = trace (st sc)"
  by (simp add: scan_events_def Let_def foldl_trace scan_create_pair_trace scan_swap_trace
      scan_liq_trace)

text \<open>A turn of the scan whose pending phase-2 tasks reach the threshold runs them then
  and there, under the label \<open>core\<close>.\<close>

lemma scan_tx_trace:
  "trace (st (scan_tx env h ts sc it)) =
     trace (st sc) @
       (if length (tasks (scan_events env h ts sc it)) \<ge> MAX_PENDING_TASKS env
           \<and> BLOCK_PROC_CONCURRENCY env \<noteq> 0
        then map (\<lambda>i. (''core'', i)) [0..<length (tasks (scan_events env h ts sc it))] else [])"
  by (simp add: scan_tx_def Let_def runWithConcurrency_trace scan_events_trace)

lemma run_phases_trace:
  "BLOCK_PROC_CONCURRENCY env \<noteq> 0 \<Longrightarrow>
   trace (run_phases env h ts sc) =
     trace (st sc) @ map (\<lambda>i. (''pools'', i)) [0..<length (poolTasks sc)]
       @ map (\<lambda>i. (''prefetch'', i)) [0..<length (prefetchSet sc)]
       @ map (\<lambda>i. (''core'', i)) [0..<length (tasks sc)]
       @ map (\<lambda>i. (''meta'', i)) [0..<length (lowPrioTasks sc)]"
  by (simp add: run_phases_def Let_def runWithConcurrency_trace)

lemma sample_tx_inputs:
  "tx_inputs (bpEnv\<lparr>MAX_PENDING_TASKS := n\<rparr>) [''dHg='']
      [Some \<lparr>events = [createPairEvent, registerEvent, swapEvent]\<rparr>]
   = [([createPairEvent, registerEvent, swapEvent], Some ''AB12'')]"
  by (simp add: tx_inputs_def bpEnv_def js_or_def truthy_def)

text \<open>What \<open>processHeight\<close> comes to on the sample block: the one turn of the scan, then
  the phases.\<close>

lemma processHeight_sample:
  "processHeight (bpEnv\<lparr>MAX_PENDING_TASKS := n\<rparr>) 100 sampleRpc sampleState =
     (None,
      run_phases (bpEnv\<lparr>MAX_PENDING_TASKS := n\<rparr>) 100 1700000000000
        (scan_tx (bpEnv\<lparr>MAX_PENDING_TASKS := n\<rparr>) 100 1700000000000
           \<lparr> poolTasks = [], tasks = [], lowPrioTasks = [], prefetchSet = [], st = sampleState \<rparr>
           ([createPairEvent, registerEvent, swapEvent], Some ''AB12'')))"
  by (simp add: processHeight_def sampleRpc_def sample_tx_inputs)

lemma sample_concurrency: "BLOCK_PROC_CONCURRENCY (bpEnv\<lparr>MAX_PENDING_TASKS := n\<rparr>) = 12"
  "MAX_PENDING_TASKS (bpEnv\<lparr>MAX_PENDING_TASKS := n\<rparr>) = n"
  by (simp_all add: bpEnv_def)

lemma sample_scan_tx_flushed:
  "scan_tx (bpEnv\<lparr>MAX_PENDING_TASKS := 1\<rparr>) 100 1700000000000
      \<lparr> poolTasks = [], tasks = [], lowPrioTasks = [], prefetchSet = [], st = sampleState \<rparr>
      ([createPairEvent, registerEvent, swapEvent], Some ''AB12'')
   = \<lparr> poolTasks = [PoolTask scannedPool], tasks = [],
       lowPrioTasks = [MetaTask ''coin.zig1x.tok'', MetaTask ''uzig''],
       prefetchSet = [''zig1newpair''],
       st = runWithConcurrency (bpEnv\<lparr>MAX_PENDING_TASKS := 1\<rparr>) 100 1700000000000
              [SwapTask scannedSwap] 12 ''core''
              (sampleState\<lparr>metaFetched := {''uzig'', ''coin.zig1x.tok''}\<rparr>) \<rparr>"
  by (simp add: scan_tx_def sample_scan sample_concurrency Let_def)

lemma sample_scan_tx_default:
  "scan_tx (bpEnv\<lparr>MAX_PENDING_TASKS := 5000\<rparr>) 100 1700000000000
      \<lparr> poolTasks = [], tasks = [], lowPrioTasks = [], prefetchSet = [], st = sampleState \<rparr>
      ([createPairEvent, registerEvent, swapEvent], Some ''AB12'')
   = \<lparr> poolTasks = [PoolTask scannedPool], tasks = [SwapTask scannedSwap],
       lowPrioTasks = [MetaTask ''coin.zig1x.tok'', MetaTask ''uzig''],
       prefetchSet = [''zig1newpair''],
       st = sampleState\<lparr>metaFetched := {''uzig'', ''coin.zig1x.tok''}\<rparr> \<rparr>"
  by (simp add: scan_tx_def sample_scan sample_concurrency Let_def)

lemma sample_trace_flushed:
  "trace (snd (processHeight (bpEnv\<lparr>MAX_PENDING_TASKS := 1\<rparr>) 100 sampleRpc sampleState))
     = [(''core'', 0), (''pools'', 0), (''prefetch'', 0), (''meta'', 0), (''meta'', 1)]"
proof -
  have "trace (run_phases (bpEnv\<lparr>MAX_PENDING_TASKS := 1\<rparr>) 100 1700000000000
      \<lparr> poolTasks = [PoolTask scannedPool], tasks = [],
        lowPrioTasks = [MetaTask ''coin.zig1x.tok'', MetaTask ''uzig''],
        prefetchSet = [''zig1newpair''],
        st = runWithConcurrency (bpEnv\<lparr>MAX_PENDING_TASKS := 1\<rparr>) 100 1700000000000
              [SwapTask scannedSwap] 12 ''core''
              (sampleState\<lparr>metaFetched := {''uzig'', ''coin.zig1x.tok''}\<rparr>) \<rparr>)
     = [(''core'', 0), (''pools'', 0), (''prefetch'', 0), (''meta'', 0), (''meta'', 1)]"
    by (simp add: run_phases_trace sample_concurrency runWithConcurrency_trace sampleState_def)
  then show ?thesis
    unfolding processHeight_sample snd_conv sample_scan_tx_flushed .
qed

lemma bpEnv_default: "bpEnv\<lparr>MAX_PENDING_TASKS := 5000\<rparr> = bpEnv"
  by (simp add: bpEnv_def)

lemma sample_trace_default:
  "trace (snd (processHeight bpEnv 100 sampleRpc sampleState))
     = [(''pools'', 0), (''prefetch'', 0), (''core'', 0), (''meta'', 0), (''meta'', 1)]"
proof -
  have "trace (run_phases (bpEnv\<lparr>MAX_PENDING_TASKS := 5000\<rparr>) 100 1700000000000
      \<lparr> poolTasks = [PoolTask scannedPool], tasks = [SwapTask scannedSwap],
       lowPrioTasks = [MetaTask ''coin.zig1x.tok'', MetaTask ''uzig''],
       prefetchSet = [''zig1newpair''],
       st = sampleState\<lparr>metaFetched := {''uzig'', ''coin.zig1x.tok''}\<rparr> \<rparr>)
     = [(''pools'', 0), (''prefetch'', 0), (''core'', 0), (''meta'', 0), (''meta'', 1)]"
    by (simp add: run_phases_trace sample_concurrency sampleState_def)
  then have "trace (snd (processHeight (bpEnv\<lparr>MAX_PENDING_TASKS := 5000\<rparr>) 100 sampleRpc sampleState))
     = [(''pools'', 0), (''prefetch'', 0), (''core'', 0), (''meta'', 0), (''meta'', 1)]"
    unfolding processHeight_sample snd_conv sample_scan_tx_default .
  then show ?thesis by (simp only: bpEnv_default)
qed

lemma sample_upsertPool:
  "upsertPool scannedPool sampleDb =
     (Inr 2,
      sampleDb\<lparr> tokens := tokens sampleDb @
                   [\<lparr> token_id = 3, denom = ''uzig'', token_type = ''factory'', exponent = Some 6 \<rparr>],
                 token_seq := 3,
                 pools := pools sampleDb @
                   [\<lparr> p_pool_id = 2, p_pair_contract = ''zig1newpair'', p_base_token_id = 1,
                      p_quote_token_id = 3, p_lp_token_denom = None, p_pair_type = ''xyk'',
                      p_is_uzig_quote = True, p_factory_contract = None, p_router_contract = None,
                      p_created_at = Some 1700000000000, p_created_height = Some 100,
                      p_created_tx_hash = Some ''AB12'', p_signer = Some ''zig1alice'',
                      p_dex_id = Some 1, p_chain_id = Some 1 \<rparr>],
                 pool_seq := 2 \<rparr>)"
  by (simp add: upsertPool_def resolveDex_def upsertTokenMinimal_def id_or_null_def
      scannedPool_def sampleDb_def Let_def)

lemma sample_poolWithTokens:
  "poolWithTokens ''zig1newpair'' (snd (upsertPool scannedPool sampleDb)) = Some newPool"
  by (simp add: sample_upsertPool) (simp add: poolWithTokens_def sampleDb_def newPool_def)

lemma sample_unknown_pool: "poolWithTokens ''zig1newpair'' sampleDb = None"
  by (simp add: poolWithTokens_def sampleDb_def)

lemma run_singleton:
  "limit \<noteq> 0 \<Longrightarrow> runWithConcurrency env h ts [t] limit l s = track env h ts l s (0, t)"
  by (simp add: runWithConcurrency_def)

lemma run_pair:
  "limit \<noteq> 0 \<Longrightarrow>
   runWithConcurrency env h ts [t, u] limit l s = track env h ts l (track env h ts l s (0, t)) (Suc 0, u)"
  by (simp add: runWithConcurrency_def upt_conv_Cons)

lemma track_pool_created:
  assumes "upsertPool a (database s) = (Inr pid, d)"
    and "poolWithTokens (pairContract a) d = Some p"
  shows "track env h ts l s (i, PoolTask a) =
     s\<lparr> trace := trace s @ [(l, i)], database := d,
        poolsByContract := (poolsByContract s)(pairContract a \<mapsto> p),
        effects := effects s @
          [PgNotify_pair_created (pt_pool_id p) (pairContract a) (base_denom p) (quote_denom p)
             (base_id p) (quote_id p) (pt_is_uzig_quote p)] \<rparr>"
  using assms by (simp add: track_def run_pool_task_def)

lemma track_prefetch_cached:
  "poolsByContract s pc \<noteq> None \<Longrightarrow>
   track env h ts l s (i, PrefetchTask pc) = s\<lparr>trace := trace s @ [(l, i)]\<rparr>"
  by (simp add: track_def run_prefetch_task_def)

lemma track_swap_cached:
  "poolsByContract s (sw_pairContract t) = Some pool \<Longrightarrow>
   tradesQueue (track env h ts l s (i, SwapTask t))
     = insertTrade (swap_trade env h ts t pool) (tradesQueue s)"
  by (simp add: track_def run_swap_task_def getPoolCached_def Let_def)

lemma track_swap_unknown:
  "poolsByContract s (sw_pairContract t) = None \<Longrightarrow>
   poolWithTokens (sw_pairContract t) (database s) = None \<Longrightarrow>
   track env h ts l s (i, SwapTask t) =
     s\<lparr>trace := trace s @ [(l, i)], effects := effects s @ [Warn ''[swap] unknown pool'']\<rparr>"
  by (simp add: track_def run_swap_task_def getPoolCached_def Let_def)

lemma track_meta:
  "track env h ts l s (i, MetaTask d) =
     s\<lparr>trace := trace s @ [(l, i)], effects := effects s @ [SetTokenMetaFromLCD d]\<rparr>"
  by (simp add: track_def)

text \<open>The default threshold: the pool task runs first, the swap finds the pool in the
  cache and its trade is queued.\<close>

lemma sample_queue_default:
  "tradesQueue (run_phases (bpEnv\<lparr>MAX_PENDING_TASKS := 5000\<rparr>) 100 1700000000000
      \<lparr> poolTasks = [PoolTask scannedPool], tasks = [SwapTask scannedSwap],
       lowPrioTasks = [MetaTask ''coin.zig1x.tok'', MetaTask ''uzig''],
       prefetchSet = [''zig1newpair''],
       st = sampleState\<lparr>metaFetched := {''uzig'', ''coin.zig1x.tok''}\<rparr> \<rparr>)
   = insertTrade (swap_trade (bpEnv\<lparr>MAX_PENDING_TASKS := 5000\<rparr>) 100 1700000000000
        scannedSwap newPool) []"
proof -
  let ?env = "bpEnv\<lparr>MAX_PENDING_TASKS := 5000\<rparr>"
  define s0 where "s0 = sampleState\<lparr>metaFetched := {''uzig'', ''coin.zig1x.tok''}\<rparr>"
  define sA where "sA = track ?env 100 1700000000000 ''pools'' s0 (0, PoolTask scannedPool)"
  define sB where "sB = track ?env 100 1700000000000 ''prefetch'' sA (0, PrefetchTask ''zig1newpair'')"
  define sC where "sC = track ?env 100 1700000000000 ''core'' sB (0, SwapTask scannedSwap)"
  have db0: "database s0 = sampleDb" and q0: "tradesQueue s0 = []"
    by (simp_all add: s0_def sampleState_def)
  have up: "upsertPool scannedPool (database s0) = (Inr 2, snd (upsertPool scannedPool sampleDb))"
    by (simp add: db0 sample_upsertPool)
  have pc: "pairContract scannedPool = ''zig1newpair''" "sw_pairContract scannedSwap = ''zig1newpair''"
    by (simp_all add: scannedPool_def scannedSwap_def)
  have found: "poolWithTokens (pairContract scannedPool) (snd (upsertPool scannedPool sampleDb)) = Some newPool"
    by (simp only: pc sample_poolWithTokens)
  have A: "poolsByContract sA ''zig1newpair'' = Some newPool" "tradesQueue sA = []"
    unfolding sA_def track_pool_created [OF up found] by (simp_all add: pc q0)
  have B: "sB = sA\<lparr>trace := trace sA @ [(''prefetch'', 0)]\<rparr>"
    unfolding sB_def using A(1) by (simp add: track_prefetch_cached)
  have B': "poolsByContract sB (sw_pairContract scannedSwap) = Some newPool" "tradesQueue sB = []"
    by (simp_all add: B A pc)
  have C: "tradesQueue sC = insertTrade (swap_trade ?env 100 1700000000000 scannedSwap newPool) []"
    unfolding sC_def by (simp add: track_swap_cached [OF B'(1)] B'(2))
  have "run_phases ?env 100 1700000000000
      \<lparr> poolTasks = [PoolTask scannedPool], tasks = [SwapTask scannedSwap],
       lowPrioTasks = [MetaTask ''coin.zig1x.tok'', MetaTask ''uzig''],
       prefetchSet = [''zig1newpair''], st = s0 \<rparr>
     = track ?env 100 1700000000000 ''meta''
         (track ?env 100 1700000000000 ''meta'' sC (0, MetaTask ''coin.zig1x.tok''))
         (Suc 0, MetaTask ''uzig'')"
    by (simp add: run_phases_def Let_def sample_concurrency run_singleton run_pair
        sA_def sB_def sC_def)
  then show ?thesis
    by (simp add: track_meta C s0_def)
qed

text \<open>The threshold at 1: the swap runs from the scan, before the pool exists, and is
  dropped with a warning; nothing queues a trade afterwards.\<close>

lemma sample_queue_flushed:
  "tradesQueue (run_phases (bpEnv\<lparr>MAX_PENDING_TASKS := 1\<rparr>) 100 1700000000000
      \<lparr> poolTasks = [PoolTask scannedPool], tasks = [],
        lowPrioTasks = [MetaTask ''coin.zig1x.tok'', MetaTask ''uzig''],
        prefetchSet = [''zig1newpair''],
        st = runWithConcurrency (bpEnv\<lparr>MAX_PENDING_TASKS := 1\<rparr>) 100 1700000000000
              [SwapTask scannedSwap] 12 ''core''
              (sampleState\<lparr>metaFetched := {''uzig'', ''coin.zig1x.tok''}\<rparr>) \<rparr>) = []
   \<and> effects (runWithConcurrency (bpEnv\<lparr>MAX_PENDING_TASKS := 1\<rparr>) 100 1700000000000
              [SwapTask scannedSwap] 12 ''core''
              (sampleState\<lparr>metaFetched := {''uzig'', ''coin.zig1x.tok''}\<rparr>))
       = [Warn ''[swap] unknown pool'']"
proof -
  let ?env = "bpEnv\<lparr>MAX_PENDING_TASKS := 1\<rparr>"
  define s0 where "s0 = sampleState\<lparr>metaFetched := {''uzig'', ''coin.zig1x.tok''}\<rparr>"
  define sF where "sF = runWithConcurrency ?env 100 1700000000000 [SwapTask scannedSwap] 12 ''core'' s0"
  define sA where "sA = track ?env 100 1700000000000 ''pools'' sF (0, PoolTask scannedPool)"
  define sB where "sB = track ?env 100 1700000000000 ''prefetch'' sA (0, PrefetchTask ''zig1newpair'')"
  have pc: "pairContract scannedPool = ''zig1newpair''" "sw_pairContract scannedSwap = ''zig1newpair''"
    by (simp_all add: scannedPool_def scannedSwap_def)
  have s0: "database s0 = sampleDb" "tradesQueue s0 = []" "effects s0 = []"
      "poolsByContract s0 (sw_pairContract scannedSwap) = None"
    by (simp_all add: s0_def sampleState_def)
  have unknown: "poolWithTokens (sw_pairContract scannedSwap) (database s0) = None"
    by (simp add: s0 pc sample_unknown_pool)
  have F: "sF = s0\<lparr>trace := trace s0 @ [(''core'', 0)],
                    effects := effects s0 @ [Warn ''[swap] unknown pool'']\<rparr>"
    unfolding sF_def by (simp add: run_singleton track_swap_unknown [OF s0(4) unknown])
  have up: "upsertPool scannedPool (database sF) = (Inr 2, snd (upsertPool scannedPool sampleDb))"
    by (simp add: F s0 sample_upsertPool)
  have found: "poolWithTokens (pairContract scannedPool) (snd (upsertPool scannedPool sampleDb)) = Some newPool"
    by (simp only: pc sample_poolWithTokens)
  have A: "poolsByContract sA ''zig1newpair'' = Some newPool" "tradesQueue sA = []"
    unfolding sA_def track_pool_created [OF up found] by (simp_all add: pc F s0)
  have B: "sB = sA\<lparr>trace := trace sA @ [(''prefetch'', 0)]\<rparr>"
    unfolding sB_def using A(1) by (simp add: track_prefetch_cached)
  have "run_phases ?env 100 1700000000000
      \<lparr> poolTasks = [PoolTask scannedPool], tasks = [],
        lowPrioTasks = [MetaTask ''coin.zig1x.tok'', MetaTask ''uzig''],
        prefetchSet = [''zig1newpair''], st = sF \<rparr>
     = track ?env 100 1700000000000 ''meta''
         (track ?env 100 1700000000000 ''meta'' sB (0, MetaTask ''coin.zig1x.tok''))
         (Suc 0, MetaTask ''uzig'')"
    by (simp add: run_phases_def Let_def sample_concurrency run_singleton run_pair sA_def sB_def)
  then have "tradesQueue (run_phases ?env 100 1700000000000
      \<lparr> poolTasks = [PoolTask scannedPool], tasks = [],
        lowPrioTasks = [MetaTask ''coin.zig1x.tok'', MetaTask ''uzig''],
        prefetchSet = [''zig1newpair''], st = sF \<rparr>) = []"
    by (simp add: track_meta B A)
  moreover have "effects sF = [Warn ''[swap] unknown pool'']"
    by (simp add: F s0)
  ultimately show ?thesis by (simp add: sF_def s0_def)
qed


text \<open>
  C2 as stated fails: \<open>processHeight(100)\<close> on the sample block completes without error and
  \<open>index_state\<close> still holds \<open>last_height = 99\<close>.
\<close>

theorem processHeight_completes_without_watermark:
  "fst (processHeight bpEnv 100 sampleRpc sampleState) = None \<and>
   index_state (database sampleState) = [(''block'', 99)] \<and>
   index_state (database (snd (processHeight bpEnv 100 sampleRpc sampleState))) = [(''block'', 99)]"
proof -
  have "fst (processHeight bpEnv 100 sampleRpc sampleState) = None"
    using processHeight_sample [of 5000] by (simp only: bpEnv_default fst_conv)
  moreover have "index_state (database sampleState) = [(''block'', 99)]"
    by (simp add: sampleState_def sampleDb_def)
  moreover have "watermark (snd (processHeight bpEnv 100 sampleRpc sampleState)) = watermark sampleState"
    by (rule processHeight_watermark)
  ultimately show ?thesis by (simp add: watermark_def)
qed

text \<open>
  C2, amended. \<open>processHeight(h)\<close> never writes \<open>index_state\<close>: when it completes, and
  when it rejects, the table is as it was before the call.
\<close>

theorem processHeight_leaves_index_state:
  "index_state (database (snd (processHeight env h rpc s))) = index_state (database s)"
  using processHeight_watermark [of env h rpc s] by (simp add: watermark_def)

text \<open>
  C3. Phase 1 is meant to complete before phase 2 starts, also under backpressure. With
  the threshold at 1 the scan of the sample transaction flushes the swap's task before
  the pool task has run: the swap finds no pool, warns, and its trade is never queued.
  With the default threshold the same block runs the pool task first and the trade is
  queued.
\<close>

theorem backpressure_runs_swap_before_pool:
  "trace (snd (processHeight (bpEnv\<lparr>MAX_PENDING_TASKS := 1\<rparr>) 100 sampleRpc sampleState))
     = [(''core'', 0), (''pools'', 0), (''prefetch'', 0), (''meta'', 0), (''meta'', 1)] \<and>
   tradesQueue (snd (processHeight (bpEnv\<lparr>MAX_PENDING_TASKS := 1\<rparr>) 100 sampleRpc sampleState)) = [] \<and>
   trace (snd (processHeight bpEnv 100 sampleRpc sampleState))
     = [(''pools'', 0), (''prefetch'', 0), (''core'', 0), (''meta'', 0), (''meta'', 1)] \<and>
   tradesQueue (snd (processHeight bpEnv 100 sampleRpc sampleState))
     = insertTrade (swap_trade bpEnv 100 1700000000000 scannedSwap newPool) []"
proof -
  have "tradesQueue (snd (processHeight (bpEnv\<lparr>MAX_PENDING_TASKS := 1\<rparr>) 100 sampleRpc sampleState)) = []"
    unfolding processHeight_sample snd_conv sample_scan_tx_flushed
    using sample_queue_flushed by (rule conjunct1)
  moreover have "tradesQueue (snd (processHeight (bpEnv\<lparr>MAX_PENDING_TASKS := 5000\<rparr>) 100 sampleRpc sampleState))
     = insertTrade (swap_trade (bpEnv\<lparr>MAX_PENDING_TASKS := 5000\<rparr>) 100 1700000000000
          scannedSwap newPool) []"
    unfolding processHeight_sample snd_conv sample_scan_tx_default
    by (rule sample_queue_default)
  then have "tradesQueue (snd (processHeight bpEnv 100 sampleRpc sampleState))
     = insertTrade (swap_trade bpEnv 100 1700000000000 scannedSwap newPool) []"
    by (simp only: bpEnv_default)
  ultimately show ?thesis
    using sample_trace_flushed sample_trace_default by simp
qed

subsection \<open>The direction of a swap\<close>




text \<open>
  Whatever \<open>classifyDirection\<close> is: if the trades of all swaps on all pools follow the
  first two clauses of the rule, it is the modelled function on every offer denom that
  is present.
\<close>

lemma classifyDirection_forced:
  assumes buy: "\<And>t pool. sw_offer t = Some (quote_denom pool) \<Longrightarrow>
        direction (swap_trade env h ts t pool) = ''buy''"
    and sell: "\<And>t pool. sw_offer t = Some (base_denom pool) \<Longrightarrow>
        base_denom pool \<noteq> quote_denom pool \<Longrightarrow>
        direction (swap_trade env h ts t pool) = ''sell''"
  shows "classifyDirection env (Some x) q = classifyDirection_spec (Some x) q"
proof (cases "x = q")
  case True
  from buy [of "scannedSwap\<lparr>sw_offer := Some x\<rparr>" "newPool\<lparr>quote_denom := q\<rparr>"] True
  show ?thesis by (simp add: swap_trade_def classifyDirection_spec_def)
next
  case False
  from sell [of "scannedSwap\<lparr>sw_offer := Some x\<rparr>" "newPool\<lparr>base_denom := x, quote_denom := q\<rparr>"] False
  show ?thesis by (simp add: swap_trade_def classifyDirection_spec_def)
qed




end
